theory Spec2Isabelle
  imports Complex_Main "HOL-Library.Multiset" "HOL-Library.AList"
begin

section \<open>Python values used by the pipeline\<close>

text \<open>
  Python \<open>str\<close> values are modelled as \<open>string\<close> (lists of 8-bit characters, read as
  the UTF-8 bytes of the text). The values that \<open>json.loads\<close> produces are the datatype
  \<open>json\<close>; a JSON object is an association list whose lookup is \<open>map_of\<close>, kept in
  insertion order as a Python \<open>dict\<close> is. Python floats are modelled as exact reals:
  rounding is outside the model.
\<close>

datatype json =
    JNull
  | JBool bool
  | JInt int
  | JFloat real
  | JStr string
  | JArr "json list"
  | JObj "(string \<times> json) list"

text \<open>Python truthiness of a decoded JSON value (\<open>if v:\<close>).\<close>

fun truthy :: "json \<Rightarrow> bool" where
  "truthy JNull = False"
| "truthy (JBool b) = b"
| "truthy (JInt i) = (i \<noteq> 0)"
| "truthy (JFloat x) = (x \<noteq> 0)"
| "truthy (JStr s) = (s \<noteq> [])"
| "truthy (JArr xs) = (xs \<noteq> [])"
| "truthy (JObj kvs) = (kvs \<noteq> [])"

text \<open>
  Exceptions: the class name and the text that \<open>str(exc)\<close> gives. For the exceptions
  of Python's built-ins the texts below are shortened; no property depends on them.
\<close>

record exn =
  exn_class :: string
  exn_text :: string

definition raise_exn :: "string \<Rightarrow> string \<Rightarrow> exn" where
  "raise_exn c t = \<lparr>exn_class = c, exn_text = t\<rparr>"

text \<open>
  The characters of a text. \<open>utf8_chars\<close> splits the bytes into the encoded characters,
  each with its code point: a byte below 0x80 stands alone; a lead byte in 0xC0..0xDF,
  0xE0..0xEF, 0xF0..0xF7 comes with one, two, three continuation bytes (0x80..0xBF). A
  byte that starts no such sequence does not occur in the encoding of a \<open>str\<close>; it is kept
  as a character of its own, numbered above the Unicode range.
\<close>

definition is_cont :: "char \<Rightarrow> bool" where
  "is_cont b = (let n = (of_char b :: nat) in 128 \<le> n \<and> n < 192)"

definition utf8_tail :: "char \<Rightarrow> string \<Rightarrow> nat" where
  "utf8_tail b0 bs =
     (let n = (of_char b0 :: nat);
          k = (if 192 \<le> n \<and> n < 224 then 1 else if 224 \<le> n \<and> n < 240 then 2
               else if 240 \<le> n \<and> n < 248 then 3 else 0)
      in if k \<le> length bs \<and> list_all is_cont (take k bs) then k else 0)"

definition utf8_cp :: "char \<Rightarrow> string \<Rightarrow> nat" where
  "utf8_cp b0 tail =
     (let n = (of_char b0 :: nat);
          lead = (if length tail = 1 then 192 else if length tail = 2 then 224 else 240)
      in if tail = [] then (if n < 128 then n else 0x110000 + n)
         else fold (\<lambda>b cp. cp * 64 + (of_char b - 128)) tail (n - lead))"

fun utf8_chars :: "string \<Rightarrow> (nat \<times> string) list" where
  "utf8_chars [] = []"
| "utf8_chars (b0 # bs) =
     (utf8_cp b0 (take (utf8_tail b0 bs) bs), b0 # take (utf8_tail b0 bs) bs) #
     utf8_chars (drop (utf8_tail b0 bs) bs)"

definition codepoints :: "string \<Rightarrow> nat list" where
  "codepoints s = map fst (utf8_chars s)"

text \<open>
  The whitespace of \<open>str.strip()\<close>, \<open>str.isspace()\<close> and \<open>\s\<close>: TAB, LF, VT, FF, CR, FS,
  GS, RS, US, space, and outside ASCII U+0085, U+00A0, U+1680, U+2000..U+200A, U+2028,
  U+2029, U+202F, U+205F, U+3000.
\<close>

definition is_space :: "nat \<Rightarrow> bool" where
  "is_space cp =
     ((9 \<le> cp \<and> cp \<le> 13) \<or> (28 \<le> cp \<and> cp \<le> 32) \<or> cp = 0x85 \<or> cp = 0xA0 \<or> cp = 0x1680 \<or>
      (0x2000 \<le> cp \<and> cp \<le> 0x200A) \<or> cp = 0x2028 \<or> cp = 0x2029 \<or> cp = 0x202F \<or>
      cp = 0x205F \<or> cp = 0x3000)"

text \<open>\<open>str.strip()\<close> removes the leading and the trailing whitespace characters.\<close>

definition py_strip :: "string \<Rightarrow> string" where
  "py_strip s =
     concat (map snd (rev (dropWhile (\<lambda>c. is_space (fst c))
       (rev (dropWhile (\<lambda>c. is_space (fst c)) (utf8_chars s))))))"

text \<open>\<open>str(n)\<close> for a non-negative integer, as the f-string \<open>f"{count+1}"\<close> formats it.\<close>

definition digit_char :: "nat \<Rightarrow> char" where
  "digit_char d = ''0123456789'' ! d"

fun dec :: "nat \<Rightarrow> string" where
  "dec n = (if n < 10 then [digit_char n] else dec (n div 10) @ [digit_char (n mod 10)])"

declare dec.simps [simp del]

section \<open>Strings: lower case, substring test, decimal numbers\<close>

text \<open>
  \<open>str.lower()\<close>, used to look for the word \<open>quota\<close>. ASCII letters are lowered; the bytes
  of the other characters are left as they are, which does not change where an ASCII word
  occurs: the only characters outside ASCII whose lower case contains an ASCII letter
  are U+0130 (\<open>i\<close> and a combining dot) and U+212A (\<open>k\<close>).
\<close>

definition to_lower :: "char \<Rightarrow> char" where
  "to_lower c =
     (case map_of (zip ''ABCDEFGHIJKLMNOPQRSTUVWXYZ'' ''abcdefghijklmnopqrstuvwxyz'') c of
        Some l \<Rightarrow> l
      | None \<Rightarrow> c)"

definition py_lower :: "string \<Rightarrow> string" where
  "py_lower s = map to_lower s"

fun starts_with :: "string \<Rightarrow> string \<Rightarrow> bool" where
  "starts_with s [] = True"
| "starts_with [] (p # ps) = False"
| "starts_with (c # cs) (p # ps) = (c = p \<and> starts_with cs ps)"

text \<open>\<open>sub in s\<close>\<close>

fun contains :: "string \<Rightarrow> string \<Rightarrow> bool" where
  "contains sub [] = (sub = [])"
| "contains sub (c # cs) = (starts_with (c # cs) sub \<or> contains sub cs)"

text \<open>\<open>sep.join(xs)\<close>\<close>

fun py_join :: "string \<Rightarrow> string list \<Rightarrow> string" where
  "py_join sep [] = []"
| "py_join sep [x] = x"
| "py_join sep (x # y # ys) = x @ sep @ py_join sep (y # ys)"

text \<open>
  The decimal digits, which \<open>\d\<close> matches and \<open>float\<close> converts, are the characters of
  the Unicode category Nd: 66 runs of ten consecutive code points (Unicode 14, as in
  CPython 3.11), listed by their zeros. The value of a digit is its distance from the zero
  of its run.
\<close>

definition DIGIT_ZEROS :: "nat list" where
  "DIGIT_ZEROS =
     [0x30, 0x660, 0x6F0, 0x7C0, 0x966, 0x9E6, 0xA66, 0xAE6, 0xB66, 0xBE6,
      0xC66, 0xCE6, 0xD66, 0xDE6, 0xE50, 0xED0, 0xF20, 0x1040, 0x1090, 0x17E0,
      0x1810, 0x1946, 0x19D0, 0x1A80, 0x1A90, 0x1B50, 0x1BB0, 0x1C40, 0x1C50, 0xA620,
      0xA8D0, 0xA900, 0xA9D0, 0xA9F0, 0xAA50, 0xABF0, 0xFF10, 0x104A0, 0x10D30, 0x11066,
      0x110F0, 0x11136, 0x111D0, 0x112F0, 0x11450, 0x114D0, 0x11650, 0x116C0, 0x11730, 0x118E0,
      0x11950, 0x11C50, 0x11D50, 0x11DA0, 0x16A60, 0x16AC0, 0x16B50, 0x1D7CE, 0x1D7D8, 0x1D7E2,
      0x1D7EC, 0x1D7F6, 0x1E140, 0x1E2F0, 0x1E950, 0x1FBF0]"

definition digit_zero :: "nat \<Rightarrow> nat option" where
  "digit_zero cp = find (\<lambda>z. z \<le> cp \<and> cp \<le> z + 9) DIGIT_ZEROS"

definition is_digit :: "nat \<Rightarrow> bool" where
  "is_digit cp = (digit_zero cp \<noteq> None)"

definition digit_value :: "nat \<Rightarrow> nat" where
  "digit_value cp = (case digit_zero cp of Some z \<Rightarrow> cp - z | None \<Rightarrow> 0)"

definition digits_value :: "nat list \<Rightarrow> nat" where
  "digits_value ds = fold (\<lambda>c n. 10 * n + digit_value c) ds 0"

text \<open>
  \<open>float(text)\<close> for a text made of digits and dots, which is all the capture groups of
  the patterns below can hold: at most one dot and at least one digit, else \<open>ValueError\<close>
  (\<open>None\<close>). The value is the exact decimal.
\<close>

definition py_float :: "nat list \<Rightarrow> real option" where
  "py_float text =
     (let int_part = takeWhile is_digit text;
          rest = dropWhile is_digit text
      in if rest = [] then
           (if int_part = [] then None else Some (real (digits_value int_part)))
         else if hd rest = 0x2E \<and> list_all is_digit (tl rest) \<and> (int_part \<noteq> [] \<or> tl rest \<noteq> [])
           then Some (real (digits_value int_part) + real (digits_value (tl rest)) / 10 ^ length (tl rest))
         else None)"

section \<open>Subscripts and dictionary access on decoded JSON\<close>

text \<open>Sequencing of steps that may raise: the first exception ends the sequence.\<close>

definition bind_exn :: "exn + 'a \<Rightarrow> ('a \<Rightarrow> exn + 'b) \<Rightarrow> exn + 'b" where
  "bind_exn m f = (case m of Inl e \<Rightarrow> Inl e | Inr v \<Rightarrow> f v)"

text \<open>\<open>v[key]\<close> for a string key: only a dict has string keys.\<close>

fun subscript_key :: "json \<Rightarrow> string \<Rightarrow> exn + json" where
  "subscript_key (JObj kvs) k =
     (case map_of kvs k of
        None \<Rightarrow> Inl (raise_exn ''KeyError'' ([CHR 0x27] @ k @ [CHR 0x27]))
      | Some v \<Rightarrow> Inr v)"
| "subscript_key (JArr xs) k = Inl (raise_exn ''TypeError'' ''list indices must be integers or slices, not str'')"
| "subscript_key (JStr s) k = Inl (raise_exn ''TypeError'' ''string indices must be integers, not str'')"
| "subscript_key v k = Inl (raise_exn ''TypeError'' ''object is not subscriptable'')"

text \<open>
  \<open>v[i]\<close> for a non-negative integer index. A decoded JSON dict has string keys only, so
  an integer subscript raises \<open>KeyError\<close>; a string yields its one-character substring.
\<close>

fun subscript_idx :: "json \<Rightarrow> nat \<Rightarrow> exn + json" where
  "subscript_idx (JArr xs) i =
     (if i < length xs then Inr (xs ! i)
      else Inl (raise_exn ''IndexError'' ''list index out of range''))"
| "subscript_idx (JObj kvs) i = Inl (raise_exn ''KeyError'' (dec i))"
| "subscript_idx (JStr s) i =
     (if i < length (utf8_chars s) then Inr (JStr (snd (utf8_chars s ! i)))
      else Inl (raise_exn ''IndexError'' ''string index out of range''))"
| "subscript_idx v i = Inl (raise_exn ''TypeError'' ''object is not subscriptable'')"

text \<open>\<open>d.get(key)\<close>: \<open>None\<close> for a missing key; only a dict has the method.\<close>

fun dict_get :: "json \<Rightarrow> string \<Rightarrow> exn + json" where
  "dict_get (JObj kvs) k = Inr (case map_of kvs k of None \<Rightarrow> JNull | Some v \<Rightarrow> v)"
| "dict_get v k = Inl (raise_exn ''AttributeError'' ''object has no attribute get'')"

text \<open>\<open>d.setdefault(key, value)\<close>, returning the dict after the call.\<close>

fun dict_setdefault :: "json \<Rightarrow> string \<Rightarrow> json \<Rightarrow> exn + (string \<times> json) list" where
  "dict_setdefault (JObj kvs) k v =
     Inr (case map_of kvs k of None \<Rightarrow> kvs @ [(k, v)] | Some w \<Rightarrow> kvs)"
| "dict_setdefault d k v = Inl (raise_exn ''AttributeError'' ''object has no attribute setdefault'')"

text \<open>
  \<open>json.loads(x)\<close> on a value taken out of a response: the decoder, a parameter of the
  model, is applied to a string; any other JSON value is a \<open>TypeError\<close>.
\<close>

fun loads_value :: "(string \<Rightarrow> exn + json) \<Rightarrow> json \<Rightarrow> exn + json" where
  "loads_value json_loads (JStr s) = json_loads s"
| "loads_value json_loads v =
     Inl (raise_exn ''TypeError'' ''the JSON object must be str, bytes or bytearray'')"

section \<open>Data model\<close>

text \<open>\<open>sync_runner.Record\<close>; its field \<open>text\<close> is named \<open>text_value\<close> here.\<close>

record Record =
  id_value :: string
  text_value :: string
  row_data :: "(string \<times> string) list"

text \<open>\<open>config.RateLimitConfig\<close> and the fields of \<open>config.AppConfig\<close> the pipeline reads.\<close>

record RateLimitConfig =
  rpm :: int
  concurrency :: int
  max_retries :: int
  retry_backoff :: real

record AppConfig =
  model :: string
  response_temperature :: real
  template_id :: string
  rate_limit :: RateLimitConfig

section \<open>Templates and normalisation (\<open>templates.py\<close>, \<open>schema.py\<close>)\<close>

record FieldConfig =
  name :: string
  display_name :: string
  description :: string
  field_type :: string
  enum_values :: "string list option"
  required :: bool
  example :: string

record ExtractionTemplate =
  template_name :: string
  template_fields :: "FieldConfig list"
  system_prompt_template :: string

text \<open>
  \<open>schema.ExtractionResult\<close>: the id and the dict \<open>_data\<close>, an association list in
  insertion order. Its two fields are named \<open>result_id_value\<close> and \<open>result_data\<close> here.
\<close>

record ExtractionResult =
  result_id_value :: string
  result_data :: "(string \<times> json) list"

text \<open>
  The field list \<open>ExtractionTemplate.fields\<close> is named \<open>template_fields\<close> here.
  \<open>get_template\<close>; the registry \<open>TEMPLATES\<close>, a dict, is a parameter.
\<close>

definition get_template :: "(string \<times> ExtractionTemplate) list \<Rightarrow> string \<Rightarrow> exn + ExtractionTemplate" where
  "get_template TEMPLATES tid =
     (case map_of TEMPLATES tid of
        None \<Rightarrow>
          Inl (raise_exn ''ValueError''
            ([CHR 0xE6, CHR 0x9C, CHR 0xAA, CHR 0xE6, CHR 0x89, CHR 0xBE, CHR 0xE5, CHR 0x88, CHR 0xB0, CHR 0xE6, CHR 0xA8, CHR 0xA1, CHR 0xE6, CHR 0x9D, CHR 0xBF] @ '' '' @ [CHR 0x27] @ tid @
             [CHR 0x27, CHR 0xE3, CHR 0x80, CHR 0x82, CHR 0xE5, CHR 0x8F, CHR 0xAF, CHR 0xE7, CHR 0x94, CHR 0xA8, CHR 0xE6, CHR 0xA8, CHR 0xA1, CHR 0xE6, CHR 0x9D, CHR 0xBF, CHR 0xEF, CHR 0xBC, CHR 0x9A] @
             py_join '', '' (map fst TEMPLATES)))
      | Some t \<Rightarrow> Inr t)"

text \<open>\<open>_clean_str\<close>: the stripped text, or \<open>None\<close> when it is empty or not a string.\<close>

fun clean_str :: "json \<Rightarrow> string option" where
  "clean_str (JStr s) = (let text = py_strip s in if text = [] then None else Some text)"
| "clean_str v = None"

text \<open>One iteration of the loop over \<open>template.fields\<close> in \<open>normalise_extraction\<close>.\<close>

definition set_field :: "(string \<times> json) list \<Rightarrow> FieldConfig \<Rightarrow> ExtractionResult \<Rightarrow> ExtractionResult" where
  "set_field raw field result =
     (case map_of raw (name field) of
        None \<Rightarrow> result\<lparr>result_data := AList.update (name field) (JStr []) (result_data result)\<rparr>
      | Some JNull \<Rightarrow> result\<lparr>result_data := AList.update (name field) (JStr []) (result_data result)\<rparr>
      | Some (JStr s) \<Rightarrow>
          result\<lparr>result_data := AList.update (name field)
            (case clean_str (JStr s) of None \<Rightarrow> JStr [] | Some cleaned \<Rightarrow> JStr cleaned)
            (result_data result)\<rparr>
      | Some v \<Rightarrow> result\<lparr>result_data := AList.update (name field) v (result_data result)\<rparr>)"

definition raw_id :: "(string \<times> json) list \<Rightarrow> string" where
  "raw_id raw =
     (case map_of raw ''id_value'' of
        Some (JStr s) \<Rightarrow> py_strip s
      | _ \<Rightarrow> (case map_of raw ''id'' of Some (JStr s) \<Rightarrow> py_strip s | _ \<Rightarrow> []))"

definition normalise_extraction ::
  "(string \<times> ExtractionTemplate) list \<Rightarrow> (string \<times> json) list \<Rightarrow> string \<Rightarrow> exn + ExtractionResult" where
  "normalise_extraction TEMPLATES raw tid =
     (let result = \<lparr>result_id_value = raw_id raw, result_data = []\<rparr>
      in bind_exn (get_template TEMPLATES tid)
           (\<lambda>template. Inr (fold (set_field raw) (template_fields template) result)))"

section \<open>Outcomes and the shared parsing steps\<close>

text \<open>An outcome is the tuple \<open>(record, extraction or None, error text or None)\<close>.\<close>

type_synonym outcome = "Record \<times> ExtractionResult option \<times> string option"

text \<open>
  The steps both runners apply to the content of a chat message: decode it, inject the
  record id if absent, normalise, and overwrite the id with the record's id.
\<close>

definition extract_content ::
  "(string \<Rightarrow> exn + json) \<Rightarrow> (string \<times> ExtractionTemplate) list \<Rightarrow> string \<Rightarrow> Record \<Rightarrow> json
     \<Rightarrow> exn + ExtractionResult" where
  "extract_content json_loads TEMPLATES tid record content =
     bind_exn (loads_value json_loads content) (\<lambda>data.
     bind_exn (dict_setdefault data ''id_value'' (JStr (id_value record))) (\<lambda>data'.
     bind_exn (normalise_extraction TEMPLATES data' tid) (\<lambda>extraction.
     Inr (extraction\<lparr>result_id_value := id_value record\<rparr>))))"

text \<open>\<open>x["choices"][0]["message"]["content"]\<close>\<close>

definition message_content :: "json \<Rightarrow> exn + json" where
  "message_content x =
     bind_exn (subscript_key x ''choices'') (\<lambda>choices.
     bind_exn (subscript_idx choices 0) (\<lambda>choice.
     bind_exn (subscript_key choice ''message'') (\<lambda>message.
     subscript_key message ''content'')))"

section \<open>Rate limiter (\<open>sync_runner.RateLimiter\<close>)\<close>

record RateLimiter =
  interval :: real
  next_slot :: real

text \<open>\<open>__init__\<close>, at clock reading \<open>now\<close>.\<close>

definition RateLimiter_init :: "int \<Rightarrow> real \<Rightarrow> RateLimiter" where
  "RateLimiter_init rpm_value now = \<lparr>interval = 60 / real_of_int (max rpm_value 1), next_slot = now\<rparr>"

text \<open>
  \<open>wait\<close>, entered with the lock held at clock reading \<open>now\<close>. When the marker lies
  ahead the caller sleeps for \<open>next_slot - now\<close>; \<open>asyncio.sleep\<close> returns no earlier than
  asked, and \<open>late\<close> is by how much later it returns (0 on a clock that the sleep advances
  exactly). The marker is then advanced from the reading taken before the sleep. Returns
  the clock reading at which the caller is let through, and the limiter after the call.
\<close>

definition wait :: "RateLimiter \<Rightarrow> real \<Rightarrow> real \<Rightarrow> real \<times> RateLimiter" where
  "wait limiter now late =
     (let granted = (if now < next_slot limiter then now + (next_slot limiter - now) + late else now)
      in (granted, limiter\<lparr>next_slot := max now (next_slot limiter) + interval limiter\<rparr>))"

text \<open>
  The lock admits one caller at a time. \<open>grants\<close> runs the calls one after the other; each
  call is given by \<open>gap\<close>, the time that passes between the release of the lock and its
  next acquisition, and \<open>late\<close>, the lateness of its sleep. The result lists the clock
  readings at which the callers are let through.
\<close>

fun grants :: "RateLimiter \<Rightarrow> real \<Rightarrow> (real \<times> real) list \<Rightarrow> real list" where
  "grants limiter clock [] = []"
| "grants limiter clock ((gap, late) # steps) =
     (let (granted, limiter') = wait limiter (clock + gap) late
      in granted # grants limiter' granted steps)"

section \<open>The regular expressions of \<open>_extract_429_retry_delay\<close>\<close>

text \<open>
  The patterns are \<open>str\<close> patterns, matched character by character: the input is the list of
  the code points of the text, \<open>\d\<close> is \<open>is_digit\<close> and \<open>\s\<close> is \<open>is_space\<close>. The three
  patterns are sequences of single-character classes, each taken once, optionally (\<open>?\<close>),
  or greedily any number of times (\<open>*\<close>, \<open>+\<close>); one item of each pattern is the capture
  group. \<open>rx_match\<close> matches such a sequence at the start of the input the way a
  backtracking matcher does: a greedy item first tries to take one more character and
  falls back to taking fewer. It returns the text of the group.
\<close>

datatype quant = Once | Opt | Star | Plus

type_synonym item = "(nat \<Rightarrow> bool) \<times> quant \<times> bool"

fun rx_match :: "item list \<Rightarrow> nat list \<Rightarrow> nat list \<Rightarrow> nat list option" where
  "rx_match [] s grp = Some grp"
| "rx_match ((cls, Once, g) # items) [] grp = None"
| "rx_match ((cls, Once, g) # items) (c # cs) grp =
     (if cls c then rx_match items cs (if g then grp @ [c] else grp) else None)"
| "rx_match ((cls, Opt, g) # items) [] grp = rx_match items [] grp"
| "rx_match ((cls, Opt, g) # items) (c # cs) grp =
     (if cls c then
        (case rx_match items cs (if g then grp @ [c] else grp) of
           Some r \<Rightarrow> Some r
         | None \<Rightarrow> rx_match items (c # cs) grp)
      else rx_match items (c # cs) grp)"
| "rx_match ((cls, Star, g) # items) [] grp = rx_match items [] grp"
| "rx_match ((cls, Star, g) # items) (c # cs) grp =
     (if cls c then
        (case rx_match ((cls, Star, g) # items) cs (if g then grp @ [c] else grp) of
           Some r \<Rightarrow> Some r
         | None \<Rightarrow> rx_match items (c # cs) grp)
      else rx_match items (c # cs) grp)"
| "rx_match ((cls, Plus, g) # items) [] grp = None"
| "rx_match ((cls, Plus, g) # items) (c # cs) grp =
     (if cls c then rx_match ((cls, Star, g) # items) cs (if g then grp @ [c] else grp) else None)"

text \<open>\<open>re.search\<close>: the match at the leftmost position that has one.\<close>

fun re_search :: "item list \<Rightarrow> nat list \<Rightarrow> nat list option" where
  "re_search items [] = rx_match items [] []"
| "re_search items (c # cs) =
     (case rx_match items (c # cs) [] of
        Some grp \<Rightarrow> Some grp
      | None \<Rightarrow> re_search items cs)"

text \<open>
  A literal character of a pattern under \<open>re.IGNORECASE\<close>: a letter matches both of its
  cases, and \<open>i\<close>, \<open>s\<close>, \<open>k\<close> also the characters that Unicode folds onto them (U+0130 and
  U+0131, U+017F, U+212A); any other ASCII character matches itself only.
\<close>

definition case_variants :: "nat \<Rightarrow> nat list" where
  "case_variants p =
     (if 65 \<le> p \<and> p \<le> 90 then [p, p + 32] else if 97 \<le> p \<and> p \<le> 122 then [p, p - 32] else [p]) @
     (if p = 73 \<or> p = 105 then [0x130, 0x131] else []) @
     (if p = 83 \<or> p = 115 then [0x17F] else []) @
     (if p = 75 \<or> p = 107 then [0x212A] else [])"

definition lit_ci :: "string \<Rightarrow> item list" where
  "lit_ci text = map (\<lambda>p. ((\<lambda>c. c \<in> set (case_variants (of_char p))), Once, False)) text"

definition is_quote :: "nat \<Rightarrow> bool" where
  "is_quote c = (c = 0x22 \<or> c = 0x27)"

definition is_digit_or_dot :: "nat \<Rightarrow> bool" where
  "is_digit_or_dot c = (is_digit c \<or> c = 0x2E)"

definition is_colon :: "nat \<Rightarrow> bool" where
  "is_colon c = (c = 0x3A)"

text \<open>\<open>retry in ([\d.]+)\s*s\<close>\<close>

definition PATTERN_RETRY_IN :: "item list" where
  "PATTERN_RETRY_IN =
     lit_ci ''retry in '' @ [(is_digit_or_dot, Plus, True), (is_space, Star, False)] @ lit_ci ''s''"

text \<open>\<open>retryDelay["\']?\s*:\s*["\']?(\d+)\<close>\<close>

definition PATTERN_RETRY_DELAY_INT :: "item list" where
  "PATTERN_RETRY_DELAY_INT =
     lit_ci ''retryDelay'' @
     [(is_quote, Opt, False), (is_space, Star, False), (is_colon, Once, False),
      (is_space, Star, False), (is_quote, Opt, False), (is_digit, Plus, True)]"

text \<open>\<open>retryDelay["\']?\s*:\s*["\']?([\d.]+)\s*s\<close>\<close>

definition PATTERN_RETRY_DELAY_S :: "item list" where
  "PATTERN_RETRY_DELAY_S =
     lit_ci ''retryDelay'' @
     [(is_quote, Opt, False), (is_space, Star, False), (is_colon, Once, False),
      (is_space, Star, False), (is_quote, Opt, False), (is_digit_or_dot, Plus, True),
      (is_space, Star, False)] @ lit_ci ''s''"

text \<open>
  The loop over the patterns: a pattern that matches and whose group converts returns;
  one that does not match, or whose group \<open>float\<close> rejects, passes to the next.
\<close>

fun first_delay :: "item list list \<Rightarrow> nat list \<Rightarrow> real option" where
  "first_delay [] error_msg = None"
| "first_delay (pattern # patterns) error_msg =
     (case re_search pattern error_msg of
        None \<Rightarrow> first_delay patterns error_msg
      | Some grp \<Rightarrow>
          (case py_float grp of
             Some d \<Rightarrow> Some d
           | None \<Rightarrow> first_delay patterns error_msg))"

definition extract_429_retry_delay :: "string \<Rightarrow> real option" where
  "extract_429_retry_delay error_msg =
     first_delay [PATTERN_RETRY_IN, PATTERN_RETRY_DELAY_INT, PATTERN_RETRY_DELAY_S]
       (codepoints error_msg)"

section \<open>Retry policy (\<open>sync_runner._call_with_retry\<close>)\<close>

definition is_429 :: "string \<Rightarrow> bool" where
  "is_429 error_str =
     (contains ''429'' error_str \<or> contains ''RESOURCE_EXHAUSTED'' error_str \<or>
      contains ''quota'' (py_lower error_str))"

text \<open>The delay slept after a failed attempt that is not the last one.\<close>

definition retry_delay :: "real \<Rightarrow> nat \<Rightarrow> string \<Rightarrow> real" where
  "retry_delay backoff attempt error_str =
     (if is_429 error_str then
        (case extract_429_retry_delay error_str of
           Some suggested_delay \<Rightarrow>
             (if suggested_delay \<noteq> 0 then min (suggested_delay + 2) 120
              else backoff ^ attempt * 10)
         | None \<Rightarrow> backoff ^ attempt * 10)
      else backoff ^ attempt)"

text \<open>
  What a run of the wrapper does, in order: pass the rate limiter, call the operation,
  sleep before the next attempt.
\<close>

datatype event = Acquire | Attempt nat | Sleep real

text \<open>
  The loop \<open>for attempt in range(max_retries + 1)\<close>. The operation is given by the
  result of each of its calls, \<open>op attempt\<close>. A loop that ends without returning or
  raising returns \<open>None\<close> (\<open>JNull\<close>).
\<close>

fun retry_loop :: "int \<Rightarrow> real \<Rightarrow> (nat \<Rightarrow> exn + json) \<Rightarrow> nat list \<Rightarrow> event list
    \<Rightarrow> (exn + json) \<times> event list" where
  "retry_loop max_retries' backoff op [] trace = (Inr JNull, trace)"
| "retry_loop max_retries' backoff op (attempt # attempts) trace =
     (case op attempt of
        Inr response \<Rightarrow> (Inr response, trace @ [Acquire, Attempt attempt])
      | Inl exc \<Rightarrow>
          (if int attempt \<ge> max_retries' then (Inl exc, trace @ [Acquire, Attempt attempt])
           else retry_loop max_retries' backoff op attempts
                  (trace @ [Acquire, Attempt attempt,
                            Sleep (retry_delay backoff attempt (exn_text exc))])))"

definition call_with_retry :: "AppConfig \<Rightarrow> (nat \<Rightarrow> exn + json) \<Rightarrow> (exn + json) \<times> event list" where
  "call_with_retry config op =
     retry_loop (max_retries (rate_limit config)) (retry_backoff (rate_limit config)) op
       [0 ..< nat (max_retries (rate_limit config) + 1)] []"



section \<open>Concurrent dispatcher (\<open>sync_runner.process_records\<close>)\<close>

text \<open>The coroutine \<open>worker\<close>: every exception becomes the error text of the outcome.\<close>

definition worker ::
  "(string \<Rightarrow> exn + json) \<Rightarrow> (string \<times> ExtractionTemplate) list \<Rightarrow> AppConfig \<Rightarrow> Record
     \<Rightarrow> (nat \<Rightarrow> exn + json) \<Rightarrow> outcome" where
  "worker json_loads TEMPLATES config record op =
     (case bind_exn (fst (call_with_retry config op)) (\<lambda>resp.
           bind_exn (message_content resp)
             (extract_content json_loads TEMPLATES (template_id config) record)) of
        Inr result \<Rightarrow> (record, Some result, None)
      | Inl exc \<Rightarrow> (record, None, Some (exn_text exc)))"

text \<open>
  \<open>process_records\<close>. \<open>ops ! i\<close> gives the results of the chat calls made for record
  \<open>i\<close>; \<open>order\<close> lists the task indices in the order in which the tasks complete, which
  is the order in which \<open>asyncio.as_completed\<close> hands them over. A negative concurrency
  makes \<open>asyncio.Semaphore\<close> raise, an unknown template makes \<open>build_system_prompt\<close>
  raise, and with concurrency zero no worker ever passes the semaphore: the function
  does not return (\<open>None\<close>) unless there is no record.
\<close>

definition process_records ::
  "(string \<Rightarrow> exn + json) \<Rightarrow> (string \<times> ExtractionTemplate) list \<Rightarrow> AppConfig \<Rightarrow> Record list
     \<Rightarrow> (nat \<Rightarrow> exn + json) list \<Rightarrow> nat list \<Rightarrow> (exn + outcome list) option" where
  "process_records json_loads TEMPLATES config records ops order =
     (if concurrency (rate_limit config) < 0 then
        Some (Inl (raise_exn ''ValueError'' ''Semaphore initial value must be >= 0''))
      else case get_template TEMPLATES (template_id config) of
        Inl exc \<Rightarrow> Some (Inl exc)
      | Inr template \<Rightarrow>
          (if concurrency (rate_limit config) = 0 \<and> records \<noteq> [] then None
           else Some (Inr (map (\<lambda>i. worker json_loads TEMPLATES config (records ! i) (ops ! i)) order))))"

section \<open>Batch request file (\<open>batch_runner.write_request_jsonl\<close>)\<close>

text \<open>
  \<open>build_batch_payload\<close>: \<open>custom_id or record.id_value\<close> takes the record's id when no
  (or an empty) custom id is given.
\<close>

definition build_batch_payload :: "Record \<Rightarrow> AppConfig \<Rightarrow> string \<Rightarrow> string option \<Rightarrow> json" where
  "build_batch_payload record config system_prompt custom_id =
     JObj [
       (''custom_id'', JStr (case custom_id of None \<Rightarrow> id_value record
                              | Some c \<Rightarrow> if c = [] then id_value record else c)),
       (''method'', JStr ''POST''),
       (''url'', JStr ''/v1/chat/completions''),
       (''body'', JObj [
          (''model'', JStr (model config)),
          (''messages'', JArr [
             JObj [(''role'', JStr ''system''), (''content'', JStr system_prompt)],
             JObj [(''role'', JStr ''user''), (''content'', JStr (text_value record))]]),
          (''temperature'', JFloat (response_temperature config)),
          (''response_format'', JObj [(''type'', JStr ''json_object'')])])]"

text \<open>
  The loop of \<open>write_request_jsonl\<close> over the records, threading \<open>seen_counts\<close>,
  \<open>id_map\<close> and the lines written so far. A line is kept as the payload object that
  \<open>json.dumps\<close> serialises.
\<close>

fun write_loop :: "AppConfig \<Rightarrow> string \<Rightarrow> Record list \<Rightarrow> (string \<rightharpoonup> nat) \<Rightarrow> (string \<rightharpoonup> Record)
    \<Rightarrow> json list \<Rightarrow> json list \<times> (string \<rightharpoonup> Record)" where
  "write_loop config system_prompt [] seen_counts id_map lines = (lines, id_map)"
| "write_loop config system_prompt (record # records) seen_counts id_map lines =
     (let base_id = (if id_value record = [] then ''row'' else id_value record);
          count = (case seen_counts base_id of None \<Rightarrow> 0 | Some c \<Rightarrow> c);
          seen_counts' = seen_counts(base_id \<mapsto> count + 1);
          unique_id = (if count = 0 then base_id else base_id @ ''__'' @ dec (count + 1));
          payload = build_batch_payload record config system_prompt (Some unique_id)
      in write_loop config system_prompt records seen_counts' (id_map(unique_id \<mapsto> record))
           (lines @ [payload]))"

definition write_request_jsonl :: "AppConfig \<Rightarrow> string \<Rightarrow> Record list \<Rightarrow> json list \<times> (string \<rightharpoonup> Record)" where
  "write_request_jsonl config system_prompt records =
     write_loop config system_prompt records Map.empty Map.empty []"

text \<open>The submission key a written line carries.\<close>

definition line_custom_id :: "json \<Rightarrow> string" where
  "line_custom_id line =
     (case line of
        JObj kvs \<Rightarrow> (case map_of kvs ''custom_id'' of Some (JStr c) \<Rightarrow> c | _ \<Rightarrow> [])
      | _ \<Rightarrow> [])"

definition submission_keys :: "AppConfig \<Rightarrow> string \<Rightarrow> Record list \<Rightarrow> string list" where
  "submission_keys config system_prompt records =
     map line_custom_id (fst (write_request_jsonl config system_prompt records))"

section \<open>Parsing the batch result file (\<open>batch_runner.parse_batch_results\<close>)\<close>

definition MISSING_TEXT :: string where
  "MISSING_TEXT = [CHR 0xE6, CHR 0x89, CHR 0xB9, CHR 0xE9, CHR 0x87, CHR 0x8F, CHR 0xE4,
     CHR 0xBB, CHR 0xBB, CHR 0xE5, CHR 0x8A, CHR 0xA1, CHR 0xE6, CHR 0x97, CHR 0xA0,
     CHR 0xE8, CHR 0xBF, CHR 0x94, CHR 0xE5, CHR 0x9B, CHR 0x9E]"

definition UNKNOWN_ERROR_TEXT :: string where
  "UNKNOWN_ERROR_TEXT = [CHR 0xE6, CHR 0x9C, CHR 0xAA, CHR 0xE7, CHR 0x9F, CHR 0xA5,
     CHR 0xE9, CHR 0x94, CHR 0x99, CHR 0xE8, CHR 0xAF, CHR 0xAF]"

text \<open>
  \<open>id_map.get(custom_id)\<close>: a list or dict is unhashable and raises; a string is looked
  up; every other value is hashable and is no key of the map.
\<close>

fun id_map_get :: "(string \<rightharpoonup> Record) \<Rightarrow> json \<Rightarrow> exn + Record option" where
  "id_map_get id_map (JStr s) = Inr (id_map s)"
| "id_map_get id_map (JArr xs) = Inl (raise_exn ''TypeError'' ''unhashable type: list'')"
| "id_map_get id_map (JObj kvs) = Inl (raise_exn ''TypeError'' ''unhashable type: dict'')"
| "id_map_get id_map v = Inr None"

text \<open>
  The outcome stored for a line that was matched to \<open>record\<close>; \<open>py_str\<close>, Python's
  \<open>str\<close> on a decoded value, is a parameter.
\<close>

definition entry_outcome ::
  "(string \<Rightarrow> exn + json) \<Rightarrow> (json \<Rightarrow> string) \<Rightarrow> (string \<times> ExtractionTemplate) list \<Rightarrow> string
     \<Rightarrow> Record \<Rightarrow> json \<Rightarrow> json \<Rightarrow> outcome" where
  "entry_outcome json_loads py_str TEMPLATES tid record response error =
     (if truthy response \<and> \<not> truthy error then
        (case bind_exn (subscript_key response ''body'') (\<lambda>body.
              bind_exn (message_content body)
                (extract_content json_loads TEMPLATES tid record)) of
           Inr extraction \<Rightarrow> (record, Some extraction, None)
         | Inl exc \<Rightarrow> (record, None, Some (exn_text exc)))
      else (record, None, Some (if truthy error then py_str error else UNKNOWN_ERROR_TEXT)))"

text \<open>
  The body of the loop over the lines: the updated \<open>results_dict\<close>, or the exception
  that leaves \<open>parse_batch_results\<close>.
\<close>

definition parse_line ::
  "(string \<Rightarrow> exn + json) \<Rightarrow> (json \<Rightarrow> string) \<Rightarrow> (string \<times> ExtractionTemplate) list \<Rightarrow> string
     \<Rightarrow> (string \<rightharpoonup> Record) \<Rightarrow> string \<Rightarrow> (string \<rightharpoonup> outcome) \<Rightarrow> exn + (string \<rightharpoonup> outcome)" where
  "parse_line json_loads py_str TEMPLATES tid id_map line results_dict =
     (if py_strip line = [] then Inr results_dict
      else
        bind_exn (json_loads line) (\<lambda>entry.
        bind_exn (dict_get entry ''custom_id'') (\<lambda>custom_id.
        bind_exn (id_map_get id_map custom_id) (\<lambda>found.
          case found of
            None \<Rightarrow> Inr results_dict
          | Some record \<Rightarrow>
              bind_exn (dict_get entry ''response'') (\<lambda>response.
              bind_exn (dict_get entry ''error'') (\<lambda>error.
                Inr (results_dict(id_value record \<mapsto>
                  entry_outcome json_loads py_str TEMPLATES tid record response error))))))))"

fun parse_lines ::
  "(string \<Rightarrow> exn + json) \<Rightarrow> (json \<Rightarrow> string) \<Rightarrow> (string \<times> ExtractionTemplate) list \<Rightarrow> string
     \<Rightarrow> (string \<rightharpoonup> Record) \<Rightarrow> string list \<Rightarrow> (string \<rightharpoonup> outcome) \<Rightarrow> exn + (string \<rightharpoonup> outcome)" where
  "parse_lines json_loads py_str TEMPLATES tid id_map [] results_dict = Inr results_dict"
| "parse_lines json_loads py_str TEMPLATES tid id_map (line # lines) results_dict =
     bind_exn (parse_line json_loads py_str TEMPLATES tid id_map line results_dict)
       (parse_lines json_loads py_str TEMPLATES tid id_map lines)"

text \<open>The final loop: one entry per input record, in input order.\<close>

definition ordered_outcomes :: "Record list \<Rightarrow> (string \<rightharpoonup> outcome) \<Rightarrow> outcome list" where
  "ordered_outcomes records results_dict =
     map (\<lambda>record. case results_dict (id_value record) of
                      Some out \<Rightarrow> out
                    | None \<Rightarrow> (record, None, Some MISSING_TEXT)) records"

text \<open>
  \<open>parse_batch_results\<close>; \<open>decoded\<close> is the value of
  \<open>result_bytes.decode("utf-8").splitlines()\<close>: the lines, or the \<open>UnicodeDecodeError\<close>.
\<close>

definition parse_batch_results ::
  "(string \<Rightarrow> exn + json) \<Rightarrow> (json \<Rightarrow> string) \<Rightarrow> (string \<times> ExtractionTemplate) list
     \<Rightarrow> Record list \<Rightarrow> (string \<rightharpoonup> Record) \<Rightarrow> exn + string list \<Rightarrow> string \<Rightarrow> exn + outcome list" where
  "parse_batch_results json_loads py_str TEMPLATES records id_map decoded tid =
     bind_exn decoded (\<lambda>lines.
     bind_exn (parse_lines json_loads py_str TEMPLATES tid id_map lines Map.empty)
       (\<lambda>results_dict. Inr (ordered_outcomes records results_dict)))"

section \<open>Batch lifecycle (\<open>batch_runner.poll_batch\<close>, \<open>batch_runner.run_batch\<close>)\<close>

text \<open>
  The transport and the record source are the environment of a run: what
  \<open>get_provider\<close>, \<open>read_csv_records\<close>, the construction of the client, \<open>upload_jsonl\<close> and
  \<open>create_batch\<close> give, and the results of the successive calls of \<open>retrieve_batch\<close>
  and of \<open>download_file\<close>, in order. A downloaded file is given by what
  \<open>decode("utf-8").splitlines()\<close> makes of it. The file system is taken to work.
\<close>

record batch_env =
  env_provider :: "string option"
  env_records :: "exn + Record list"
  env_client :: "exn option"
  env_upload :: "exn + json"
  env_create :: "exn + json"
  env_retrieve :: "(exn + json) list"
  env_download :: "(exn + (exn + string list)) list"

text \<open>What a run does to the outside, in order.\<close>

datatype batch_event = Upload_file | Create_batch | Retrieve_batch | Download_file | Time_sleep real

text \<open>
  How a run ends when it raises: one of the \<open>RuntimeError\<close>s of \<open>run_batch\<close> itself,
  or an exception of a callee passing through.
\<close>

datatype abort =
    Unsupported_provider "string option"
  | No_records
  | No_file_id json
  | No_output_file
  | Download_unavailable
  | Propagated exn

text \<open>The exception raised; the texts are the UTF-8 bytes of the source's messages.\<close>

fun abort_exn :: "(json \<Rightarrow> string) \<Rightarrow> abort \<Rightarrow> exn" where
  "abort_exn py_str (Unsupported_provider provider) =
     raise_exn ''RuntimeError''
       ([CHR 0xE6, CHR 0x89, CHR 0xB9, CHR 0xE9, CHR 0x87, CHR 0x8F, CHR 0xE6, CHR 0x8E, CHR 0xA8, CHR 0xE7, CHR 0x90, CHR 0x86, CHR 0xE6, CHR 0xA8, CHR 0xA1, CHR 0xE5, CHR 0xBC, CHR 0x8F, CHR 0xE5, CHR 0xBD, CHR 0x93, CHR 0xE5, CHR 0x89, CHR 0x8D, CHR 0xE4, CHR 0xBB, CHR 0x85, CHR 0xE6, CHR 0x94, CHR 0xAF, CHR 0xE6, CHR 0x8C, CHR 0x81] @ '' siliconflow'' @ [CHR 0xE3, CHR 0x80, CHR 0x81] @ ''aliyun'' @ [CHR 0xE3, CHR 0x80, CHR 0x81] @ ''openai'' @ [CHR 0xE3, CHR 0x80, CHR 0x82, CHR 0xE5, CHR 0xBD, CHR 0x93, CHR 0xE5, CHR 0x89, CHR 0x8D, CHR 0xE4, CHR 0xBE, CHR 0x9B, CHR 0xE5, CHR 0xBA, CHR 0x94, CHR 0xE5, CHR 0x95, CHR 0x86, CHR 0xEF, CHR 0xBC, CHR 0x9A] @
        (case provider of None \<Rightarrow> ''custom'' | Some p \<Rightarrow> if p = [] then ''custom'' else p) @
        [CHR 0xE3, CHR 0x80, CHR 0x82, CHR 0xE8, CHR 0xAF, CHR 0xB7, CHR 0xE4, CHR 0xBD, CHR 0xBF, CHR 0xE7, CHR 0x94, CHR 0xA8] @ '' --mode sync '' @ [CHR 0xE8, CHR 0xBF, CHR 0x9B, CHR 0xE8, CHR 0xA1, CHR 0x8C, CHR 0xE5, CHR 0x90, CHR 0x8C, CHR 0xE6, CHR 0xAD, CHR 0xA5, CHR 0xE6, CHR 0xA8, CHR 0xA1, CHR 0xE5, CHR 0xBC, CHR 0x8F, CHR 0xE5, CHR 0xA4, CHR 0x84, CHR 0xE7, CHR 0x90, CHR 0x86, CHR 0xE3, CHR 0x80, CHR 0x82])"
| "abort_exn py_str No_records =
     raise_exn ''RuntimeError''
       ([CHR 0xE6, CHR 0x9C, CHR 0xAA, CHR 0xE8, CHR 0xAF, CHR 0xBB, CHR 0xE5, CHR 0x8F, CHR 0x96, CHR 0xE5, CHR 0x88, CHR 0xB0, CHR 0xE4, CHR 0xBB, CHR 0xBB, CHR 0xE4, CHR 0xBD, CHR 0x95, CHR 0xE8, CHR 0xAE, CHR 0xB0, CHR 0xE5, CHR 0xBD, CHR 0x95, CHR 0xEF, CHR 0xBC, CHR 0x8C, CHR 0xE8, CHR 0xAF, CHR 0xB7, CHR 0xE6, CHR 0xA3, CHR 0x80, CHR 0xE6, CHR 0x9F, CHR 0xA5] @ '' CSV '' @ [CHR 0xE6, CHR 0x96, CHR 0x87, CHR 0xE4, CHR 0xBB, CHR 0xB6, CHR 0xE5, CHR 0x92, CHR 0x8C, CHR 0xE5, CHR 0x88, CHR 0x97, CHR 0xE5, CHR 0x90, CHR 0x8D, CHR 0xE9, CHR 0x85, CHR 0x8D, CHR 0xE7, CHR 0xBD, CHR 0xAE])"
| "abort_exn py_str (No_file_id file_info) =
     raise_exn ''RuntimeError''
       ([CHR 0xE6, CHR 0x96, CHR 0x87, CHR 0xE4, CHR 0xBB, CHR 0xB6, CHR 0xE4, CHR 0xB8, CHR 0x8A, CHR 0xE4, CHR 0xBC, CHR 0xA0, CHR 0xE6, CHR 0x88, CHR 0x90, CHR 0xE5, CHR 0x8A, CHR 0x9F, CHR 0xE4, CHR 0xBD, CHR 0x86, CHR 0xE6, CHR 0x9C, CHR 0xAA, CHR 0xE8, CHR 0x8E, CHR 0xB7, CHR 0xE5, CHR 0x8F, CHR 0x96, CHR 0xE5, CHR 0x88, CHR 0xB0, CHR 0xE6, CHR 0x96, CHR 0x87, CHR 0xE4, CHR 0xBB, CHR 0xB6] @ ''ID'' @ [CHR 0xEF, CHR 0xBC, CHR 0x8C, CHR 0xE8, CHR 0xBF, CHR 0x94, CHR 0xE5, CHR 0x9B, CHR 0x9E, CHR 0xEF, CHR 0xBC, CHR 0x9A] @
        py_str file_info)"
| "abort_exn py_str No_output_file =
     raise_exn ''RuntimeError''
       ([CHR 0xE6, CHR 0x89, CHR 0xB9, CHR 0xE9, CHR 0x87, CHR 0x8F, CHR 0xE4, CHR 0xBB, CHR 0xBB, CHR 0xE5, CHR 0x8A, CHR 0xA1, CHR 0xE5, CHR 0xB7, CHR 0xB2, CHR 0xE5, CHR 0xAE, CHR 0x8C, CHR 0xE6, CHR 0x88, CHR 0x90, CHR 0xE4, CHR 0xBD, CHR 0x86, CHR 0xE5, CHR 0xB0, CHR 0x9A, CHR 0xE6, CHR 0x9C, CHR 0xAA, CHR 0xE7, CHR 0x94, CHR 0x9F, CHR 0xE6, CHR 0x88, CHR 0x90, CHR 0xE7, CHR 0xBB, CHR 0x93, CHR 0xE6, CHR 0x9E, CHR 0x9C, CHR 0xE6, CHR 0x96, CHR 0x87, CHR 0xE4, CHR 0xBB, CHR 0xB6, CHR 0xEF, CHR 0xBC, CHR 0x8C, CHR 0xE8, CHR 0xAF, CHR 0xB7, CHR 0xE7, CHR 0xA8, CHR 0x8D, CHR 0xE5, CHR 0x90, CHR 0x8E, CHR 0xE9, CHR 0x87, CHR 0x8D, CHR 0xE8, CHR 0xAF, CHR 0x95])"
| "abort_exn py_str Download_unavailable =
     raise_exn ''RuntimeError''
       ([CHR 0xE7, CHR 0xBB, CHR 0x93, CHR 0xE6, CHR 0x9E, CHR 0x9C, CHR 0xE6, CHR 0x96, CHR 0x87, CHR 0xE4, CHR 0xBB, CHR 0xB6, CHR 0xE6, CHR 0x9A, CHR 0x82, CHR 0xE4, CHR 0xB8, CHR 0x8D, CHR 0xE5, CHR 0x8F, CHR 0xAF, CHR 0xE7, CHR 0x94, CHR 0xA8, CHR 0xEF, CHR 0xBC, CHR 0x8C, CHR 0xE8, CHR 0xAF, CHR 0xB7, CHR 0xE7, CHR 0xA8, CHR 0x8D, CHR 0xE5, CHR 0x90, CHR 0x8E, CHR 0xE9, CHR 0x87, CHR 0x8D, CHR 0xE8, CHR 0xAF, CHR 0x95, CHR 0xE4, CHR 0xB8, CHR 0x8B, CHR 0xE8, CHR 0xBD, CHR 0xBD])"
| "abort_exn py_str (Propagated exc) = exc"

text \<open>
  The end of a run: raised, or returned the dict with \<open>batch\<close>, \<open>status\<close> and
  \<open>results\<close> (\<open>None\<close> or the parsed outcomes).
\<close>

datatype run_result = Aborted abort | Returned json json "outcome list option"

text \<open>
  The expression that takes the file id out of the upload response: \<open>id\<close>, or else
  \<open>data.id\<close>; for a response that is no dict, \<open>None\<close>.
\<close>

fun resolve_file_id :: "json \<Rightarrow> exn + json" where
  "resolve_file_id (JObj kvs) =
     (let first = (case map_of kvs ''id'' of None \<Rightarrow> JNull | Some v \<Rightarrow> v)
      in if truthy first then Inr first
         else dict_get (case map_of kvs ''data'' of None \<Rightarrow> JObj [] | Some v \<Rightarrow> v) ''id'')"
| "resolve_file_id v = Inr JNull"

text \<open>
  \<open>state in {"failed", "cancelled"}\<close> hashes \<open>state\<close>: a list or a dict raises.
\<close>

fun unhashable :: "json \<Rightarrow> bool" where
  "unhashable (JArr xs) = True"
| "unhashable (JObj kvs) = True"
| "unhashable v = False"

text \<open>
  \<open>poll_batch\<close>, reading the results of \<open>retrieve_batch\<close> off the script: the status it
  returns or the exception it raises, with the rest of the script. The loop has no bound;
  a script that ends before a terminal state is reached gives \<open>None\<close>.
\<close>

fun poll_batch :: "(exn + json) list \<Rightarrow> real \<Rightarrow> batch_event list
    \<Rightarrow> ((exn + json) \<times> (exn + json) list \<times> batch_event list) option" where
  "poll_batch [] interval' trace = None"
| "poll_batch (r # script) interval' trace =
     (case r of
        Inl exc \<Rightarrow> Some (Inl exc, script, trace @ [Retrieve_batch])
      | Inr status \<Rightarrow>
          (case dict_get status ''status'' of
             Inl exc \<Rightarrow> Some (Inl exc, script, trace @ [Retrieve_batch])
           | Inr state \<Rightarrow>
               if state = JStr ''completed'' then Some (Inr status, script, trace @ [Retrieve_batch])
               else if unhashable state then
                 Some (Inl (raise_exn ''TypeError'' ''unhashable type''), script, trace @ [Retrieve_batch])
               else if state = JStr ''failed'' \<or> state = JStr ''cancelled'' then
                 Some (Inr status, script, trace @ [Retrieve_batch])
               else poll_batch script interval' (trace @ [Retrieve_batch, Time_sleep interval'])))"

text \<open>
  The loop \<open>for attempt in range(6)\<close> that asks again for \<open>output_file_id\<close>: the id and
  status it ends with (the id still falsy when no attempt found one).
\<close>

fun refresh_output_file_id :: "nat list \<Rightarrow> (exn + json) list \<Rightarrow> json \<Rightarrow> json \<Rightarrow> batch_event list
    \<Rightarrow> ((exn + json \<times> json) \<times> (exn + json) list \<times> batch_event list) option" where
  "refresh_output_file_id [] script output_file_id status trace =
     Some (Inr (output_file_id, status), script, trace)"
| "refresh_output_file_id (attempt # attempts) [] output_file_id status trace = None"
| "refresh_output_file_id (attempt # attempts) (r # script) output_file_id status trace =
     (let trace' = trace @ [Time_sleep (2 * (real attempt + 1)), Retrieve_batch]
      in case r of
           Inl exc \<Rightarrow> Some (Inl exc, script, trace')
         | Inr refreshed \<Rightarrow>
             (case dict_get refreshed ''output_file_id'' of
                Inl exc \<Rightarrow> Some (Inl exc, script, trace')
              | Inr output_file_id' \<Rightarrow>
                  if truthy output_file_id' then Some (Inr (output_file_id', refreshed), script, trace')
                  else refresh_output_file_id attempts script output_file_id' status trace'))"

text \<open>
  The loop \<open>for attempt in range(8)\<close> around \<open>download_file\<close>: every exception is
  caught and slept on; the \<open>else\<close> of the loop raises.
\<close>

fun download_result :: "nat list \<Rightarrow> (exn + (exn + string list)) list \<Rightarrow> batch_event list
    \<Rightarrow> ((abort + (exn + string list)) \<times> batch_event list) option" where
  "download_result [] script trace = Some (Inl Download_unavailable, trace)"
| "download_result (attempt # attempts) [] trace = None"
| "download_result (attempt # attempts) (r # script) trace =
     (case r of
        Inr result_bytes \<Rightarrow> Some (Inr result_bytes, trace @ [Download_file])
      | Inl exc \<Rightarrow>
          download_result attempts script
            (trace @ [Download_file, Time_sleep (2 * (real attempt + 1))]))"

text \<open>
  Getting \<open>output_file_id\<close>: from the status \<open>poll_batch\<close> returned, or else from the
  refresh loop.
\<close>

definition obtain_output_file_id :: "json \<Rightarrow> (exn + json) list \<Rightarrow> batch_event list
    \<Rightarrow> ((exn + json \<times> json) \<times> (exn + json) list \<times> batch_event list) option" where
  "obtain_output_file_id status script trace =
     (case dict_get status ''output_file_id'' of
        Inl exc \<Rightarrow> Some (Inl exc, script, trace)
      | Inr output_file_id \<Rightarrow>
          if truthy output_file_id then Some (Inr (output_file_id, status), script, trace)
          else refresh_output_file_id [0..<6] script output_file_id status trace)"

text \<open>The part of \<open>run_batch\<close> after \<open>poll_batch\<close> has returned \<open>status\<close>.\<close>

definition fetch_results ::
  "(string \<Rightarrow> exn + json) \<Rightarrow> (json \<Rightarrow> string) \<Rightarrow> (string \<times> ExtractionTemplate) list \<Rightarrow> AppConfig
     \<Rightarrow> batch_env \<Rightarrow> Record list \<Rightarrow> (string \<rightharpoonup> Record) \<Rightarrow> json \<Rightarrow> json \<Rightarrow> (exn + json) list
     \<Rightarrow> batch_event list \<Rightarrow> (run_result \<times> batch_event list) option" where
  "fetch_results json_loads py_str TEMPLATES config env records id_map batch status script trace =
     (if dict_get status ''status'' \<noteq> Inr (JStr ''completed'') then
        Some (Returned batch status None, trace)
      else
        case obtain_output_file_id status script trace of
          None \<Rightarrow> None
        | Some (Inl exc, script', trace') \<Rightarrow> Some (Aborted (Propagated exc), trace')
        | Some (Inr (output_file_id, status'), script', trace') \<Rightarrow>
            if \<not> truthy output_file_id then Some (Aborted No_output_file, trace')
            else
              (case download_result [0..<8] (env_download env) trace' of
                 None \<Rightarrow> None
               | Some (Inl a, trace'') \<Rightarrow> Some (Aborted a, trace'')
               | Some (Inr decoded, trace'') \<Rightarrow>
                   (case parse_batch_results json_loads py_str TEMPLATES records id_map decoded
                           (template_id config) of
                      Inl exc \<Rightarrow> Some (Aborted (Propagated exc), trace'')
                    | Inr parsed \<Rightarrow> Some (Returned batch status' (Some parsed), trace''))))"

text \<open>
  \<open>run_batch\<close>. \<open>build_prompt\<close> is \<open>ExtractionTemplate.build_prompt\<close>, a parameter.
  \<open>None\<close>: the run does not end on this environment.
\<close>

definition run_batch ::
  "(string \<Rightarrow> exn + json) \<Rightarrow> (json \<Rightarrow> string) \<Rightarrow> (string \<times> ExtractionTemplate) list
     \<Rightarrow> (ExtractionTemplate \<Rightarrow> string) \<Rightarrow> AppConfig \<Rightarrow> real \<Rightarrow> batch_env
     \<Rightarrow> (run_result \<times> batch_event list) option" where
  "run_batch json_loads py_str TEMPLATES build_prompt config poll_interval env =
     (if env_provider env \<notin> {Some ''siliconflow'', Some ''aliyun'', Some ''openai''} then
        Some (Aborted (Unsupported_provider (env_provider env)), [])
      else
        case env_records env of
          Inl exc \<Rightarrow> Some (Aborted (Propagated exc), [])
        | Inr records \<Rightarrow>
           if records = [] then Some (Aborted No_records, [])
           else
             (case env_client env of
                Some exc \<Rightarrow> Some (Aborted (Propagated exc), [])
              | None \<Rightarrow>
                 (case get_template TEMPLATES (template_id config) of
                    Inl exc \<Rightarrow> Some (Aborted (Propagated exc), [])
                  | Inr template \<Rightarrow>
                     (let id_map = snd (write_request_jsonl config (build_prompt template) records)
                      in case env_upload env of
                           Inl exc \<Rightarrow> Some (Aborted (Propagated exc), [Upload_file])
                         | Inr file_info \<Rightarrow>
                            (case resolve_file_id file_info of
                               Inl exc \<Rightarrow> Some (Aborted (Propagated exc), [Upload_file])
                             | Inr file_id \<Rightarrow>
                                if \<not> truthy file_id then
                                  Some (Aborted (No_file_id file_info), [Upload_file])
                                else
                                  (case env_create env of
                                     Inl exc \<Rightarrow>
                                       Some (Aborted (Propagated exc), [Upload_file, Create_batch])
                                   | Inr batch \<Rightarrow>
                                      (case subscript_key batch ''id'' of
                                         Inl exc \<Rightarrow>
                                           Some (Aborted (Propagated exc), [Upload_file, Create_batch])
                                       | Inr batch_id \<Rightarrow>
                                          (case poll_batch (env_retrieve env) poll_interval
                                                  [Upload_file, Create_batch] of
                                             None \<Rightarrow> None
                                           | Some (Inl exc, script, trace) \<Rightarrow>
                                               Some (Aborted (Propagated exc), trace)
                                           | Some (Inr status, script, trace) \<Rightarrow>
                                               fetch_results json_loads py_str TEMPLATES config env
                                                 records id_map batch status script trace))))))))"

section \<open>Reading aids for the proofs\<close>

text \<open>
  The value \<open>normalise_extraction\<close> stores under a field name, as a function of the
  payload: the three assignments of the loop body read together.
\<close>

definition stored_value :: "(string \<times> json) list \<Rightarrow> string \<Rightarrow> json" where
  "stored_value raw n =
     (case map_of raw n of
        None \<Rightarrow> JStr []
      | Some JNull \<Rightarrow> JStr []
      | Some (JStr s) \<Rightarrow> JStr (py_strip s)
      | Some v \<Rightarrow> v)"

text \<open>
  Reading \<open>write_request_jsonl\<close>: the base id of a record, the key given to a base id
  that was seen \<open>c\<close> times before, and the meaning of \<open>seen_counts\<close> after the records
  \<open>done\<close>.
\<close>

definition base_id :: "Record \<Rightarrow> string" where
  "base_id r = (if id_value r = [] then ''row'' else id_value r)"

definition key_for :: "string \<Rightarrow> nat \<Rightarrow> string" where
  "key_for b c = (if c = 0 then b else b @ ''__'' @ dec (c + 1))"

definition seen_ok :: "(string \<rightharpoonup> nat) \<Rightarrow> Record list \<Rightarrow> bool" where
  "seen_ok seen done =
     (\<forall>b. (case seen b of None \<Rightarrow> 0 | Some c \<Rightarrow> c) = length (filter (\<lambda>r. base_id r = b) done))"

text \<open>Storing the outcome of a line under its record's natural id.\<close>

definition store :: "(string \<rightharpoonup> outcome) \<Rightarrow> outcome option \<Rightarrow> (string \<rightharpoonup> outcome)" where
  "store rd m = (case m of None \<Rightarrow> rd | Some out \<Rightarrow> rd(id_value (fst out) \<mapsto> out))"

text \<open>
  The outcome a line stores, read off \<open>parse_line\<close>: \<open>None\<close> for a line that stores
  nothing (blank, not matched through \<open>id_map\<close>, or raising).
\<close>

definition matched_outcome ::
  "(string \<Rightarrow> exn + json) \<Rightarrow> (json \<Rightarrow> string) \<Rightarrow> (string \<times> ExtractionTemplate) list \<Rightarrow> string
     \<Rightarrow> (string \<rightharpoonup> Record) \<Rightarrow> string \<Rightarrow> outcome option" where
  "matched_outcome json_loads py_str TEMPLATES tid id_map line =
     (if py_strip line = [] then None
      else case json_loads line of
        Inl e \<Rightarrow> None
      | Inr entry \<Rightarrow>
         (case dict_get entry ''custom_id'' of
            Inl e \<Rightarrow> None
          | Inr custom_id \<Rightarrow>
             (case id_map_get id_map custom_id of
                Inr (Some record) \<Rightarrow>
                  (case (dict_get entry ''response'', dict_get entry ''error'') of
                     (Inr response, Inr error) \<Rightarrow>
                        Some (entry_outcome json_loads py_str TEMPLATES tid record response error)
                   | _ \<Rightarrow> None)
              | _ \<Rightarrow> None)))"

text \<open>
  A line that cannot make \<open>parse_batch_results\<close> raise: blank, or decoding to a JSON
  object whose \<open>custom_id\<close> is hashable.
\<close>

definition well_formed_line :: "(string \<Rightarrow> exn + json) \<Rightarrow> string \<Rightarrow> bool" where
  "well_formed_line json_loads line =
     (py_strip line = [] \<or>
      (case json_loads line of
         Inr (JObj kvs) \<Rightarrow>
           (case map_of kvs ''custom_id'' of
              Some (JArr xs) \<Rightarrow> False
            | Some (JObj ys) \<Rightarrow> False
            | _ \<Rightarrow> True)
       | _ \<Rightarrow> False))"




section \<open>Example data\<close>

definition mk_field :: "string \<Rightarrow> FieldConfig" where
  "mk_field n = \<lparr>name = n, display_name = n, description = [], field_type = ''string'',
     enum_values = None, required = False, example = []\<rparr>"

definition example_template :: ExtractionTemplate where
  "example_template = \<lparr>template_name = ''demo'',
     template_fields = [mk_field ''f1'', mk_field ''f2'', mk_field ''f3''],
     system_prompt_template = []\<rparr>"

definition example_TEMPLATES :: "(string \<times> ExtractionTemplate) list" where
  "example_TEMPLATES = [(''demo'', example_template)]"

definition mk_record :: "string \<Rightarrow> string \<Rightarrow> Record" where
  "mk_record i t = \<lparr>id_value = i, text_value = t, row_data = []\<rparr>"

text \<open>A decoder, a \<open>str\<close> and responses for the examples.\<close>

definition chat_response :: "string \<Rightarrow> json" where
  "chat_response content =
     JObj [(''choices'', JArr [JObj [(''message'', JObj [(''content'', JStr content)])]])]"

definition success_entry :: "string \<Rightarrow> string \<Rightarrow> json" where
  "success_entry custom_id content =
     JObj [(''custom_id'', JStr custom_id),
           (''response'', JObj [(''body'', chat_response content)]),
           (''error'', JNull)]"

definition example_loads :: "string \<Rightarrow> exn + json" where
  "example_loads s =
     (if s = ''line A'' then Inr (success_entry ''A'' ''content A'')
      else if s = ''line B'' then Inr (success_entry ''B'' ''content B'')
      else if s = ''line A__2'' then Inr (success_entry ''A__2'' ''content A2'')
      else if s = ''line Z'' then Inr (success_entry ''Z'' ''content B'')
      else if s = ''content A'' then Inr (JObj [(''f1'', JStr ''va''), (''id_value'', JStr ''other'')])
      else if s = ''content B'' then Inr (JObj [(''f1'', JStr ''vb'')])
      else if s = ''content A2'' then Inr (JObj [(''f1'', JStr ''va2'')])
      else Inl (raise_exn ''JSONDecodeError'' ''Expecting value''))"

fun example_str :: "json \<Rightarrow> string" where
  "example_str (JStr s) = s"
| "example_str v = ''value''"

definition example_config :: AppConfig where
  "example_config = \<lparr>model = ''m'', response_temperature = 0, template_id = ''demo'',
     rate_limit = \<lparr>rpm = 60, concurrency = 2, max_retries = 3, retry_backoff = 2\<rparr>\<rparr>"

definition example_op_A :: "nat \<Rightarrow> exn + json" where
  "example_op_A attempt = Inr (chat_response ''content A'')"

definition example_op_B :: "nat \<Rightarrow> exn + json" where
  "example_op_B attempt = Inr (chat_response ''content B'')"

definition example_result :: "string \<Rightarrow> string \<Rightarrow> ExtractionResult" where
  "example_result i v = \<lparr>result_id_value = i,
     result_data = [(''f1'', JStr v), (''f2'', JStr []), (''f3'', JStr [])]\<rparr>"

definition example_records :: "Record list" where
  "example_records = [mk_record ''A'' ''x'', mk_record ''B'' ''y'', mk_record ''A'' ''z'']"

definition example_id_map :: "string \<rightharpoonup> Record" where
  "example_id_map = snd (write_request_jsonl example_config ''p'' example_records)"



text \<open>An environment for the examples: everything works until the fields are changed.\<close>

definition example_env :: batch_env where
  "example_env = \<lparr>
     env_provider = Some ''openai'',
     env_records = Inr example_records,
     env_client = None,
     env_upload = Inr (JObj [(''id'', JStr ''file-1'')]),
     env_create = Inr (JObj [(''id'', JStr ''batch-1'')]),
     env_retrieve = [Inr (JObj [(''status'', JStr ''in_progress'')]),
                     Inr (JObj [(''status'', JStr ''completed''), (''output_file_id'', JStr ''out-1'')])],
     env_download = [Inr (Inr [''line A'', ''line B''])]\<rparr>"

definition example_build_prompt :: "ExtractionTemplate \<Rightarrow> string" where
  "example_build_prompt template = system_prompt_template template"

definition completed_no_id :: "exn + json" where
  "completed_no_id = Inr (JObj [(''status'', JStr ''completed'')])"

text \<open>The job completes but never shows an output file.\<close>

definition example_env_no_output :: batch_env where
  "example_env_no_output = example_env\<lparr>env_retrieve :=
     [completed_no_id, completed_no_id, completed_no_id, completed_no_id,
      completed_no_id, completed_no_id, completed_no_id]\<rparr>"

text \<open>The job completes, the output file is named on the second refresh.\<close>

definition example_env_late_output :: batch_env where
  "example_env_late_output = example_env\<lparr>env_retrieve :=
     [Inr (JObj [(''status'', JStr ''queued'')]),
      Inr (JObj [(''status'', JStr ''in_progress'')]),
      completed_no_id, completed_no_id,
      Inr (JObj [(''status'', JStr ''completed''), (''output_file_id'', JStr ''out-1'')])]\<rparr>"

text \<open>No provider is recognised; and \<open>retrieve_batch\<close> raises during the first refresh.\<close>

definition example_env_custom_provider :: batch_env where
  "example_env_custom_provider = example_env\<lparr>env_provider := None\<rparr>"

definition example_env_refresh_raises :: batch_env where
  "example_env_refresh_raises = example_env\<lparr>env_retrieve :=
     [completed_no_id, Inl (raise_exn ''APIError'' ''500'')]\<rparr>"

section \<open>Properties\<close>

subsection \<open>Normalisation\<close>

lemmas utf8_simps = codepoints_def utf8_tail_def utf8_cp_def is_cont_def

lemma utf8_chars_bytes: "c \<in> set (utf8_chars s) \<Longrightarrow> snd c \<noteq> []"
  by (induction s rule: utf8_chars.induct) auto

lemma concat_bytes_empty:
  assumes "\<forall>c\<in>set xs. snd c \<noteq> []"
  shows "concat (map snd xs) = [] \<longleftrightarrow> xs = []"
proof (cases xs)
  case Nil
  then show ?thesis by simp
next
  case (Cons x xs')
  then have "snd x \<noteq> []" using assms by simp
  then show ?thesis using Cons by simp
qed

lemma py_strip_empty_iff: "py_strip s = [] \<longleftrightarrow> (\<forall>cp\<in>set (codepoints s). is_space cp)"
proof -
  let ?sp = "\<lambda>c. is_space (fst c)"
  let ?kept = "rev (dropWhile ?sp (rev (dropWhile ?sp (utf8_chars s))))"
  have "set ?kept \<subseteq> set (utf8_chars s)"
    by (auto dest!: set_dropWhileD)
  then have "\<forall>c\<in>set ?kept. snd c \<noteq> []" using utf8_chars_bytes by blast
  then have "concat (map snd ?kept) = [] \<longleftrightarrow> ?kept = []"
    by (rule concat_bytes_empty)
  then have "py_strip s = [] \<longleftrightarrow> ?kept = []"
    unfolding py_strip_def .
  also have "\<dots> \<longleftrightarrow> (\<forall>c\<in>set (dropWhile ?sp (utf8_chars s)). ?sp c)"
    by simp
  also have "\<dots> \<longleftrightarrow> dropWhile ?sp (utf8_chars s) = []"
  proof
    assume a: "\<forall>c\<in>set (dropWhile ?sp (utf8_chars s)). ?sp c"
    show "dropWhile ?sp (utf8_chars s) = []"
    proof (rule ccontr)
      assume n: "dropWhile ?sp (utf8_chars s) \<noteq> []"
      then have "\<not> ?sp (hd (dropWhile ?sp (utf8_chars s)))" by (rule hd_dropWhile)
      moreover have "hd (dropWhile ?sp (utf8_chars s)) \<in> set (dropWhile ?sp (utf8_chars s))"
        using n by simp
      ultimately show False using a by blast
    qed
  next
    assume "dropWhile ?sp (utf8_chars s) = []"
    then show "\<forall>c\<in>set (dropWhile ?sp (utf8_chars s)). ?sp c"
      by (auto dest: set_dropWhileD)
  qed
  also have "\<dots> \<longleftrightarrow> (\<forall>cp\<in>set (codepoints s). is_space cp)"
    by (simp add: codepoints_def)
  finally show ?thesis .
qed

lemma set_field_lookup:
  "map_of (result_data (set_field raw f r)) n =
     (if n = name f then Some (stored_value raw n) else map_of (result_data r) n)"
  by (auto simp: set_field_def stored_value_def update_conv' Let_def split: option.splits json.splits)

lemma fold_set_field_lookup:
  "map_of (result_data (fold (set_field raw) fs r)) n =
     (if n \<in> name ` set fs then Some (stored_value raw n) else map_of (result_data r) n)"
  by (induction fs arbitrary: r) (auto simp: set_field_lookup)

text \<open>
  C7. For a template of the registry and any payload dict, \<open>normalise_extraction\<close> returns
  a result in which every field the template declares is present; a field that is absent
  from the payload (or is \<open>null\<close> there), and a string field that is empty or consists of
  whitespace characters only, is stored as the empty string.
\<close>

theorem normalise_extraction_complete:
  assumes "map_of TEMPLATES tid = Some t"
  shows "\<exists>res. normalise_extraction TEMPLATES raw tid = Inr res \<and>
           (\<forall>f\<in>set (template_fields t).
              (\<exists>v. map_of (result_data res) (name f) = Some v) \<and>
              (map_of raw (name f) = None \<or> map_of raw (name f) = Some JNull
                 \<longrightarrow> map_of (result_data res) (name f) = Some (JStr [])) \<and>
              (\<forall>s. map_of raw (name f) = Some (JStr s) \<and> (\<forall>cp\<in>set (codepoints s). is_space cp)
                 \<longrightarrow> map_of (result_data res) (name f) = Some (JStr [])))"
proof -
  let ?res = "fold (set_field raw) (template_fields t) \<lparr>result_id_value = raw_id raw, result_data = []\<rparr>"
  have r: "normalise_extraction TEMPLATES raw tid = Inr ?res"
    using assms by (simp add: normalise_extraction_def get_template_def bind_exn_def)
  have "\<forall>f\<in>set (template_fields t). map_of (result_data ?res) (name f) = Some (stored_value raw (name f))"
    by (simp add: fold_set_field_lookup)
  moreover have "\<And>n. map_of raw n = None \<or> map_of raw n = Some JNull \<Longrightarrow> stored_value raw n = JStr []"
    by (auto simp: stored_value_def)
  moreover have "\<And>n s. map_of raw n = Some (JStr s) \<Longrightarrow> \<forall>cp\<in>set (codepoints s). is_space cp
      \<Longrightarrow> stored_value raw n = JStr []"
    by (simp add: stored_value_def py_strip_empty_iff)
  ultimately show ?thesis using r by auto
qed

theorem normalise_extraction_complete_witness:
  "map_of example_TEMPLATES ''demo'' = Some example_template \<and>
   (\<exists>res. normalise_extraction example_TEMPLATES
            [(''f1'', JStr ''x''), (''f3'', JStr [CHR 0x20, CHR 0xE3, CHR 0x80, CHR 0x80])] ''demo'' = Inr res \<and>
      map_of (result_data res) ''f1'' = Some (JStr ''x'') \<and>
      map_of (result_data res) ''f2'' = Some (JStr []) \<and>
      map_of (result_data res) ''f3'' = Some (JStr []))"
proof -
  let ?raw = "[(''f1'', JStr ''x''), (''f3'', JStr [CHR 0x20, CHR 0xE3, CHR 0x80, CHR 0x80])]"
  have h: "map_of example_TEMPLATES ''demo'' = Some example_template"
    by (simp add: example_TEMPLATES_def)
  have f2: "mk_field ''f2'' \<in> set (template_fields example_template)"
    and f3: "mk_field ''f3'' \<in> set (template_fields example_template)"
    by (simp_all add: example_template_def)
  have sp: "\<forall>cp\<in>set (codepoints [CHR 0x20, CHR 0xE3, CHR 0x80, CHR 0x80]). is_space cp"
    by (simp add: is_space_def utf8_simps)
  obtain res where
    r: "normalise_extraction example_TEMPLATES ?raw ''demo'' = Inr res"
    and a: "\<forall>f\<in>set (template_fields example_template).
              (\<exists>v. map_of (result_data res) (name f) = Some v) \<and>
              (map_of ?raw (name f) = None \<or> map_of ?raw (name f) = Some JNull
                 \<longrightarrow> map_of (result_data res) (name f) = Some (JStr [])) \<and>
              (\<forall>s. map_of ?raw (name f) = Some (JStr s) \<and> (\<forall>cp\<in>set (codepoints s). is_space cp)
                 \<longrightarrow> map_of (result_data res) (name f) = Some (JStr []))"
    using h normalise_extraction_complete [of example_TEMPLATES "''demo''" example_template ?raw] by blast
  have "map_of (result_data res) ''f2'' = Some (JStr [])"
    using bspec [OF a f2] by (simp add: mk_field_def)
  moreover have "map_of (result_data res) ''f3'' = Some (JStr [])"
    using bspec [OF a f3] sp by (simp add: mk_field_def)
  moreover have "map_of (result_data res) ''f1'' = Some (JStr ''x'')"
    using r by (auto simp: normalise_extraction_def get_template_def bind_exn_def example_TEMPLATES_def
        example_template_def mk_field_def set_field_def update_conv' py_strip_def is_space_def utf8_simps)
  ultimately show ?thesis using h r by blast
qed

subsection \<open>The batch parser: what the loop over the lines stores\<close>

lemma fst_entry_outcome:
  "fst (entry_outcome json_loads py_str TEMPLATES tid record response error) = record"
  by (simp add: entry_outcome_def split: sum.splits)

lemma extract_content_id:
  "extract_content json_loads TEMPLATES tid record content = Inr e \<Longrightarrow>
     result_id_value e = id_value record"
  by (auto simp: extract_content_def bind_exn_def split: sum.splits)

lemma entry_outcome_id:
  assumes "entry_outcome json_loads py_str TEMPLATES tid record response error = (r, Some e, err)"
  shows "result_id_value e = id_value record"
  using assms
  by (auto simp: entry_outcome_def bind_exn_def split: if_splits sum.splits dest: extract_content_id)

lemma id_map_get_Inl:
  "id_map_get m v = Inl e \<Longrightarrow> (\<exists>xs. v = JArr xs) \<or> (\<exists>kvs. v = JObj kvs)"
  by (cases v) auto

lemma id_map_get_Some:
  "id_map_get m v = Inr (Some r) \<Longrightarrow> \<exists>s. v = JStr s \<and> m s = Some r"
  by (cases v) auto

lemma matched_outcome_source:
  assumes "matched_outcome json_loads py_str TEMPLATES tid id_map line = Some out"
  shows "\<exists>key. id_map key = Some (fst out)"
  using assms
  by (auto simp: matched_outcome_def fst_entry_outcome
      split: if_splits sum.splits option.splits) (meson id_map_get_Some)

lemma matched_outcome_id:
  assumes "matched_outcome json_loads py_str TEMPLATES tid id_map line = Some (r, Some e, err)"
  shows "result_id_value e = id_value r"
proof -
  from assms obtain r0 response error where
    eo: "entry_outcome json_loads py_str TEMPLATES tid r0 response error = (r, Some e, err)"
    by (auto simp: matched_outcome_def split: if_splits sum.splits option.splits)
  have "r = r0" using fst_entry_outcome [of json_loads py_str TEMPLATES tid r0 response error] eo
    by simp
  with entry_outcome_id [OF eo] show ?thesis by simp
qed

lemma parse_line_matched:
  assumes "parse_line json_loads py_str TEMPLATES tid id_map line rd = Inr rd'"
  shows "rd' = store rd (matched_outcome json_loads py_str TEMPLATES tid id_map line)"
  using assms
  by (auto simp: parse_line_def matched_outcome_def bind_exn_def store_def
      split: if_splits sum.splits option.splits) (metis fst_conv fst_entry_outcome)

lemma parse_lines_fold:
  assumes "parse_lines json_loads py_str TEMPLATES tid id_map lines rd = Inr rd'"
  shows "rd' = fold (\<lambda>line rd. store rd (matched_outcome json_loads py_str TEMPLATES tid id_map line)) lines rd"
  using assms
proof (induction lines arbitrary: rd)
  case Nil
  then show ?case by simp
next
  case (Cons line lines)
  then obtain rd1 where a: "parse_line json_loads py_str TEMPLATES tid id_map line rd = Inr rd1"
    and b: "parse_lines json_loads py_str TEMPLATES tid id_map lines rd1 = Inr rd'"
    by (auto simp: bind_exn_def split: sum.splits)
  from parse_line_matched [OF a] Cons.IH [OF b] show ?case by simp
qed

lemma parse_line_total:
  assumes "well_formed_line json_loads line"
  shows "\<exists>rd'. parse_line json_loads py_str TEMPLATES tid id_map line rd = Inr rd'"
  using assms
  by (auto simp: well_formed_line_def parse_line_def bind_exn_def
      split: sum.splits json.splits option.splits dest: id_map_get_Inl)

lemma parse_lines_total:
  assumes "\<forall>line\<in>set lines. well_formed_line json_loads line"
  shows "\<exists>rd'. parse_lines json_loads py_str TEMPLATES tid id_map lines rd = Inr rd'"
  using assms
proof (induction lines arbitrary: rd)
  case Nil
  then show ?case by simp
next
  case (Cons line lines)
  then obtain rd1 where "parse_line json_loads py_str TEMPLATES tid id_map line rd = Inr rd1"
    using parse_line_total [of json_loads line py_str TEMPLATES tid id_map rd] by auto
  then show ?case using Cons by (simp add: bind_exn_def)
qed

text \<open>A key that no line stores under keeps its entry.\<close>

lemma fold_store_other:
  assumes "\<forall>l\<in>set lines. \<forall>out. M l = Some out \<longrightarrow> id_value (fst out) \<noteq> n"
  shows "fold (\<lambda>line rd. store rd (M line)) lines rd n = rd n"
  using assms
  by (induction lines arbitrary: rd) (auto simp: store_def split: option.splits)

text \<open>The last line that stores under a key decides its entry.\<close>

lemma fold_store_last:
  assumes "M l = Some out"
    and "\<forall>l'\<in>set post. \<forall>out'. M l' = Some out' \<longrightarrow> id_value (fst out') \<noteq> id_value (fst out)"
  shows "fold (\<lambda>line rd. store rd (M line)) (pre @ l # post) rd (id_value (fst out)) = Some out"
proof -
  have "fold (\<lambda>line rd. store rd (M line)) (pre @ l # post) rd (id_value (fst out)) =
        store (fold (\<lambda>line rd. store rd (M line)) pre rd) (M l) (id_value (fst out))"
    using fold_store_other [OF assms(2)] by simp
  then show ?thesis using assms(1) by (simp add: store_def)
qed

text \<open>Every entry of \<open>results_dict\<close> was stored by some line, under its record's id.\<close>

lemma fold_store_entry:
  assumes "fold (\<lambda>line rd. store rd (M line)) lines rd n = Some out"
  shows "rd n = Some out \<or> (\<exists>l\<in>set lines. M l = Some out \<and> id_value (fst out) = n)"
  using assms
proof (induction lines arbitrary: rd)
  case Nil
  then show ?case by simp
next
  case (Cons l lines)
  from Cons.IH [of "store rd (M l)"] Cons.prems
  have "store rd (M l) n = Some out \<or> (\<exists>l\<in>set lines. M l = Some out \<and> id_value (fst out) = n)"
    by simp
  then show ?case
    by (auto simp: store_def split: option.splits if_splits)
qed

lemma ordered_outcomes_nth:
  assumes "i < length records"
  shows "ordered_outcomes records rd ! i =
           (case rd (id_value (records ! i)) of
              Some out \<Rightarrow> out
            | None \<Rightarrow> (records ! i, None, Some MISSING_TEXT))"
  using assms by (simp add: ordered_outcomes_def)

lemma parse_batch_results_Inr:
  assumes "parse_batch_results json_loads py_str TEMPLATES records id_map (Inr lines) tid = Inr ordered"
  shows "ordered = ordered_outcomes records
           (fold (\<lambda>line rd. store rd (matched_outcome json_loads py_str TEMPLATES tid id_map line))
              lines Map.empty)"
proof -
  from assms obtain rd where
    p: "parse_lines json_loads py_str TEMPLATES tid id_map lines Map.empty = Inr rd"
    and o: "ordered = ordered_outcomes records rd"
    by (auto simp: parse_batch_results_def bind_exn_def split: sum.splits)
  from parse_lines_fold [OF p] o show ?thesis by simp
qed

text \<open>
  The \<open>i\<close>-th outcome of the batch parser is either the Missing outcome of the \<open>i\<close>-th
  record or the outcome some line stored for a record with the same natural id.
\<close>

lemma parse_batch_results_nth:
  assumes "parse_batch_results json_loads py_str TEMPLATES records id_map (Inr lines) tid = Inr ordered"
    and "i < length records"
  shows "ordered ! i = (records ! i, None, Some MISSING_TEXT) \<or>
         (\<exists>l\<in>set lines. matched_outcome json_loads py_str TEMPLATES tid id_map l = Some (ordered ! i) \<and>
                          id_value (fst (ordered ! i)) = id_value (records ! i))"
proof -
  let ?M = "matched_outcome json_loads py_str TEMPLATES tid id_map"
  let ?rd = "fold (\<lambda>line rd. store rd (?M line)) lines Map.empty"
  have o: "ordered ! i = (case ?rd (id_value (records ! i)) of
              Some out \<Rightarrow> out | None \<Rightarrow> (records ! i, None, Some MISSING_TEXT))"
    using parse_batch_results_Inr [OF assms(1)] ordered_outcomes_nth [OF assms(2)] by simp
  show ?thesis
  proof (cases "?rd (id_value (records ! i))")
    case None
    then show ?thesis using o by simp
  next
    case (Some out)
    from fold_store_entry [of ?M lines Map.empty "id_value (records ! i)" out] Some
    have "\<exists>l\<in>set lines. ?M l = Some out \<and> id_value (fst out) = id_value (records ! i)" by simp
    then show ?thesis using o Some by simp
  qed
qed

lemma parse_batch_results_length:
  assumes "parse_batch_results json_loads py_str TEMPLATES records id_map (Inr lines) tid = Inr ordered"
  shows "length ordered = length records"
  using parse_batch_results_Inr [OF assms] by (simp add: ordered_outcomes_def)

lemma parse_batch_results_total:
  assumes "\<forall>line\<in>set lines. well_formed_line json_loads line"
  shows "\<exists>ordered. parse_batch_results json_loads py_str TEMPLATES records id_map (Inr lines) tid = Inr ordered"
  using parse_lines_total [OF assms, of py_str TEMPLATES tid id_map Map.empty]
  by (auto simp: parse_batch_results_def bind_exn_def)

text \<open>
  A record whose natural id no matched line carries receives the Missing outcome, and a
  line whose key is not in \<open>id_map\<close> stores nothing.
\<close>

lemma parse_batch_results_missing:
  assumes "parse_batch_results json_loads py_str TEMPLATES records id_map (Inr lines) tid = Inr ordered"
    and "i < length records"
    and "\<forall>l\<in>set lines. \<forall>out. matched_outcome json_loads py_str TEMPLATES tid id_map l = Some out
           \<longrightarrow> id_value (fst out) \<noteq> id_value (records ! i)"
  shows "ordered ! i = (records ! i, None, Some MISSING_TEXT)"
  using parse_batch_results_nth [OF assms(1,2)] assms(3) by blast

lemma unmatched_key_dropped:
  assumes "json_loads line = Inr (JObj kvs)" and "map_of kvs ''custom_id'' = Some (JStr key)"
    and "id_map key = None"
  shows "parse_line json_loads py_str TEMPLATES tid id_map line rd = Inr rd"
  using assms by (simp add: parse_line_def bind_exn_def)

subsection \<open>The sync worker\<close>

lemma fst_worker: "fst (worker json_loads TEMPLATES config r op) = r"
  by (simp add: worker_def split: sum.splits)

lemma worker_id:
  assumes "fst (snd (worker json_loads TEMPLATES config r op)) = Some e"
  shows "result_id_value e = id_value r"
  using assms
  by (auto simp: worker_def bind_exn_def split: sum.splits dest: extract_content_id)

lemma process_records_Inr:
  assumes "process_records json_loads TEMPLATES config records ops order = Some (Inr outs)"
  shows "outs = map (\<lambda>i. worker json_loads TEMPLATES config (records ! i) (ops ! i)) order"
  using assms by (auto simp: process_records_def split: if_splits sum.splits)

text \<open>
  C9. In every outcome that carries an extraction, the extraction's id is the id of the
  record the outcome carries. Sync path: the \<open>k\<close>-th outcome handed over belongs to the task
  that completed \<open>k\<close>-th and carries that task's record. Batch path: the \<open>i\<close>-th outcome
  carries a record whose id is that of the \<open>i\<close>-th input record, and so is the
  extraction's id. An id the model wrote into its JSON never survives.
\<close>

theorem success_outcome_keeps_record_id:
  "(process_records json_loads TEMPLATES config records ops order = Some (Inr outs) \<longrightarrow>
      (\<forall>k<length outs. fst (outs ! k) = records ! (order ! k) \<and>
         (\<forall>e. fst (snd (outs ! k)) = Some e \<longrightarrow> result_id_value e = id_value (fst (outs ! k))))) \<and>
   (parse_batch_results json_loads py_str TEMPLATES1 records1 id_map decoded tid = Inr ordered \<longrightarrow>
      (\<forall>i<length ordered. \<forall>e. fst (snd (ordered ! i)) = Some e \<longrightarrow>
         result_id_value e = id_value (fst (ordered ! i)) \<and>
         result_id_value e = id_value (records1 ! i)))"
proof -
  have sync: "fst (outs ! k) = records ! (order ! k) \<and>
         (\<forall>e. fst (snd (outs ! k)) = Some e \<longrightarrow> result_id_value e = id_value (fst (outs ! k)))"
    if p: "process_records json_loads TEMPLATES config records ops order = Some (Inr outs)"
      and k: "k < length outs" for k
  proof -
    have o: "outs ! k = worker json_loads TEMPLATES config (records ! (order ! k)) (ops ! (order ! k))"
      using process_records_Inr [OF p] k by simp
    show ?thesis
      using o worker_id [of json_loads TEMPLATES config "records ! (order ! k)" "ops ! (order ! k)"]
      by (simp add: fst_worker)
  qed
  have batch: "result_id_value e = id_value (fst (ordered ! i)) \<and>
         result_id_value e = id_value (records1 ! i)"
    if p: "parse_batch_results json_loads py_str TEMPLATES1 records1 id_map decoded tid = Inr ordered"
      and i: "i < length ordered" and e: "fst (snd (ordered ! i)) = Some e" for i e
  proof -
    from p obtain lines where d: "decoded = Inr lines"
      by (auto simp: parse_batch_results_def bind_exn_def split: sum.splits)
    have p': "parse_batch_results json_loads py_str TEMPLATES1 records1 id_map (Inr lines) tid = Inr ordered"
      using p d by simp
    have i': "i < length records1" using parse_batch_results_length [OF p'] i by simp
    from parse_batch_results_nth [OF p' i'] e
    obtain l where m: "matched_outcome json_loads py_str TEMPLATES1 tid id_map l = Some (ordered ! i)"
      and n: "id_value (fst (ordered ! i)) = id_value (records1 ! i)"
      by auto
    obtain r err where t: "ordered ! i = (r, Some e, err)"
      using e by (cases "ordered ! i") auto
    have "result_id_value e = id_value r"
      using matched_outcome_id [of json_loads py_str TEMPLATES1 tid id_map l r e err] m t by simp
    then show ?thesis using n t by simp
  qed
  show ?thesis using sync batch by blast
qed

subsection \<open>Last line wins\<close>

text \<open>
  C10. The batch parser files the outcome of a line under the natural id of the record the
  line is matched to. Whatever lines precede it, the last line matched to a record with a
  given natural id decides the outcome, and every input record with that natural id
  receives that one outcome.
\<close>

theorem parse_batch_results_last_wins:
  assumes "parse_batch_results json_loads py_str TEMPLATES records id_map (Inr (pre @ l # post)) tid = Inr ordered"
    and "matched_outcome json_loads py_str TEMPLATES tid id_map l = Some out"
    and "\<forall>l'\<in>set post. \<forall>out'. matched_outcome json_loads py_str TEMPLATES tid id_map l' = Some out'
           \<longrightarrow> id_value (fst out') \<noteq> id_value (fst out)"
  shows "\<forall>i<length records. id_value (records ! i) = id_value (fst out) \<longrightarrow> ordered ! i = out"
proof (intro allI impI)
  fix i
  assume i: "i < length records" and n: "id_value (records ! i) = id_value (fst out)"
  let ?M = "matched_outcome json_loads py_str TEMPLATES tid id_map"
  have "fold (\<lambda>line rd. store rd (?M line)) (pre @ l # post) Map.empty (id_value (fst out)) = Some out"
    using fold_store_last [of ?M l out post pre Map.empty] assms(2,3) by blast
  then show "ordered ! i = out"
    using parse_batch_results_Inr [OF assms(1)] ordered_outcomes_nth [OF i] n by simp
qed

subsection \<open>Evaluating the examples\<close>

lemmas parse_example_simps =
  parse_batch_results_def parse_line_def bind_exn_def write_request_jsonl_def Let_def
  mk_record_def dec.simps digit_char_def build_batch_payload_def example_loads_def
  success_entry_def chat_response_def entry_outcome_def message_content_def extract_content_def
  normalise_extraction_def get_template_def example_TEMPLATES_def example_template_def
  mk_field_def set_field_def raw_id_def py_strip_def is_space_def utf8_simps ordered_outcomes_def
  example_result_def example_records_def example_id_map_def example_config_def

lemmas sync_example_simps =
  process_records_def worker_def call_with_retry_def example_op_A_def example_op_B_def
  upt_conv_Cons

lemma example_sync_run:
  "process_records example_loads example_TEMPLATES example_config
     [mk_record ''A'' ''x'', mk_record ''B'' ''y''] [example_op_A, example_op_B] [1, 0] =
   Some (Inr [(mk_record ''B'' ''y'', Some (example_result ''B'' ''vb''), None),
              (mk_record ''A'' ''x'', Some (example_result ''A'' ''va''), None)])"
  by (simp add: parse_example_simps sync_example_simps)

lemma example_batch_two_lines:
  "parse_batch_results example_loads example_str example_TEMPLATES example_records example_id_map
     (Inr [''line A'', ''line B'']) ''demo'' =
   Inr [(mk_record ''A'' ''x'', Some (example_result ''A'' ''va''), None),
        (mk_record ''B'' ''y'', Some (example_result ''B'' ''vb''), None),
        (mk_record ''A'' ''x'', Some (example_result ''A'' ''va''), None)]"
  by (simp add: parse_example_simps)

lemma example_batch_three_lines:
  "parse_batch_results example_loads example_str example_TEMPLATES example_records example_id_map
     (Inr ([''line A'', ''line B''] @ ''line A__2'' # [])) ''demo'' =
   Inr [(mk_record ''A'' ''z'', Some (example_result ''A'' ''va2''), None),
        (mk_record ''B'' ''y'', Some (example_result ''B'' ''vb''), None),
        (mk_record ''A'' ''z'', Some (example_result ''A'' ''va2''), None)]"
  by (simp add: parse_example_simps)

lemma example_matched_last:
  "matched_outcome example_loads example_str example_TEMPLATES ''demo'' example_id_map ''line A__2'' =
     Some (mk_record ''A'' ''z'', Some (example_result ''A'' ''va2''), None)"
  by (simp add: parse_example_simps matched_outcome_def)

lemma example_lines_well_formed:
  "\<forall>line\<in>set [''line A'', ''line B'']. well_formed_line example_loads line"
  by (simp add: parse_example_simps well_formed_line_def)

theorem success_outcome_keeps_record_id_witness:
  "process_records example_loads example_TEMPLATES example_config
     [mk_record ''A'' ''x'', mk_record ''B'' ''y''] [example_op_A, example_op_B] [1, 0] =
     Some (Inr [(mk_record ''B'' ''y'', Some (example_result ''B'' ''vb''), None),
                (mk_record ''A'' ''x'', Some (example_result ''A'' ''va''), None)]) \<and>
   parse_batch_results example_loads example_str example_TEMPLATES example_records example_id_map
     (Inr [''line A'', ''line B'']) ''demo'' =
     Inr [(mk_record ''A'' ''x'', Some (example_result ''A'' ''va''), None),
          (mk_record ''B'' ''y'', Some (example_result ''B'' ''vb''), None),
          (mk_record ''A'' ''x'', Some (example_result ''A'' ''va''), None)] \<and>
   result_id_value (example_result ''B'' ''vb'') = id_value (mk_record ''B'' ''y'') \<and>
   result_id_value (example_result ''A'' ''va'') = id_value (example_records ! 2)"
proof -
  let ?outs = "[(mk_record ''B'' ''y'', Some (example_result ''B'' ''vb''), None),
                (mk_record ''A'' ''x'', Some (example_result ''A'' ''va''), None)]"
  let ?ordered = "[(mk_record ''A'' ''x'', Some (example_result ''A'' ''va''), None),
          (mk_record ''B'' ''y'', Some (example_result ''B'' ''vb''), None),
          (mk_record ''A'' ''x'', Some (example_result ''A'' ''va''), None)]"
  note t = success_outcome_keeps_record_id [of example_loads example_TEMPLATES example_config
      "[mk_record ''A'' ''x'', mk_record ''B'' ''y'']" "[example_op_A, example_op_B]" "[1, 0]" ?outs
      example_str example_TEMPLATES example_records example_id_map "Inr [''line A'', ''line B'']" "''demo''"
      ?ordered]
  note q1 = t [THEN conjunct1, THEN mp, OF example_sync_run, THEN spec, of 0]
  note q2 = t [THEN conjunct2, THEN mp, OF example_batch_two_lines, THEN spec, of 2]
  have a: "result_id_value (example_result ''B'' ''vb'') = id_value (mk_record ''B'' ''y'')"
    using q1 by simp
  have len: "2 < length ?ordered" by simp
  have sn: "fst (snd (?ordered ! 2)) = Some (example_result ''A'' ''va'')" by simp
  note b = q2 [THEN mp, OF len, THEN spec, THEN mp, OF sn, THEN conjunct2]
  show ?thesis
    by (intro conjI) (rule example_sync_run, rule example_batch_two_lines, rule a, rule b)
qed

theorem parse_batch_results_last_wins_witness:
  "parse_batch_results example_loads example_str example_TEMPLATES example_records example_id_map
     (Inr ([''line A'', ''line B''] @ ''line A__2'' # [])) ''demo'' =
     Inr [(mk_record ''A'' ''z'', Some (example_result ''A'' ''va2''), None),
          (mk_record ''B'' ''y'', Some (example_result ''B'' ''vb''), None),
          (mk_record ''A'' ''z'', Some (example_result ''A'' ''va2''), None)] \<and>
   matched_outcome example_loads example_str example_TEMPLATES ''demo'' example_id_map ''line A__2'' =
     Some (mk_record ''A'' ''z'', Some (example_result ''A'' ''va2''), None) \<and>
   [(mk_record ''A'' ''z'', Some (example_result ''A'' ''va2''), None),
    (mk_record ''B'' ''y'', Some (example_result ''B'' ''vb''), None),
    (mk_record ''A'' ''z'', Some (example_result ''A'' ''va2''), None)] ! 0 =
     (mk_record ''A'' ''z'', Some (example_result ''A'' ''va2''), None)"
proof -
  have h3: "\<forall>l'\<in>set []. \<forall>out'.
      matched_outcome example_loads example_str example_TEMPLATES ''demo'' example_id_map l' = Some out'
        \<longrightarrow> id_value (fst out') \<noteq> id_value (fst (mk_record ''A'' ''z'', Some (example_result ''A'' ''va2''), None))"
    by simp
  note t = parse_batch_results_last_wins [OF example_batch_three_lines example_matched_last h3,
      THEN spec, of 0]
  have c: "[(mk_record ''A'' ''z'', Some (example_result ''A'' ''va2''), None),
    (mk_record ''B'' ''y'', Some (example_result ''B'' ''vb''), None),
    (mk_record ''A'' ''z'', Some (example_result ''A'' ''va2''), None)] ! 0 =
     (mk_record ''A'' ''z'', Some (example_result ''A'' ''va2''), None)"
    using t by (simp add: example_records_def mk_record_def)
  show ?thesis
    by (intro conjI) (rule example_batch_three_lines, rule example_matched_last, rule c)
qed
subsection \<open>One outcome per record\<close>

lemma mset_map_nth_perm:
  assumes "mset order = mset [0..<length xs]"
  shows "mset (map ((!) xs) order) = mset xs"
proof -
  have "mset (map ((!) xs) order) = image_mset ((!) xs) (mset order)" by simp
  also have "\<dots> = image_mset ((!) xs) (mset [0..<length xs])" using assms by simp
  also have "\<dots> = mset (map ((!) xs) [0..<length xs])" by simp
  also have "\<dots> = mset xs" by (simp add: map_nth)
  finally show ?thesis .
qed

text \<open>
  C1 as the code has it. Sync path: with a positive concurrency bound and a known template,
  \<open>process_records\<close> returns one outcome per input record, the \<open>k\<close>-th outcome carrying
  the record of the task that completed \<open>k\<close>-th; the records carried are the input records,
  each once, in completion order. Batch path: on lines that are blank or decode to a JSON
  object with a hashable \<open>custom_id\<close>, \<open>parse_batch_results\<close> returns one outcome per input
  record in input order, the \<open>i\<close>-th carrying a record with the natural id of the \<open>i\<close>-th
  input record; it carries the \<open>i\<close>-th input record itself when natural ids are pairwise
  distinct and \<open>id_map\<close> holds input records only.
\<close>

theorem outcomes_per_record:
  assumes "0 < concurrency (rate_limit config)"
    and "map_of TEMPLATES (template_id config) = Some t"
    and "mset order = mset [0..<length records]"
    and "\<forall>line\<in>set lines. well_formed_line json_loads line"
  shows "(\<exists>outs. process_records json_loads TEMPLATES config records ops order = Some (Inr outs) \<and>
            length outs = length records \<and>
            (\<forall>k<length outs. fst (outs ! k) = records ! (order ! k)) \<and>
            mset (map fst outs) = mset records) \<and>
         (\<exists>ordered. parse_batch_results json_loads py_str TEMPLATES records id_map (Inr lines) tid = Inr ordered \<and>
            length ordered = length records \<and>
            (\<forall>i<length records. id_value (fst (ordered ! i)) = id_value (records ! i)) \<and>
            (distinct (map id_value records) \<and> (\<forall>key r. id_map key = Some r \<longrightarrow> r \<in> set records)
               \<longrightarrow> (\<forall>i<length records. fst (ordered ! i) = records ! i)))"
proof
  let ?W = "\<lambda>i. worker json_loads TEMPLATES config (records ! i) (ops ! i)"
  have p: "process_records json_loads TEMPLATES config records ops order = Some (Inr (map ?W order))"
    using assms(1,2) by (simp add: process_records_def get_template_def)
  have l: "length (map ?W order) = length records"
    using mset_eq_length [OF assms(3)] by simp
  have f: "map fst (map ?W order) = map ((!) records) order"
    by (simp add: fst_worker)
  have m: "mset (map fst (map ?W order)) = mset records"
    unfolding f using mset_map_nth_perm [OF assms(3)] .
  have n: "\<forall>k<length (map ?W order). fst (map ?W order ! k) = records ! (order ! k)"
    by (simp add: fst_worker)
  show "\<exists>outs. process_records json_loads TEMPLATES config records ops order = Some (Inr outs) \<and>
            length outs = length records \<and>
            (\<forall>k<length outs. fst (outs ! k) = records ! (order ! k)) \<and>
            mset (map fst outs) = mset records"
    using p l m n by blast
next
  obtain ordered where
    p: "parse_batch_results json_loads py_str TEMPLATES records id_map (Inr lines) tid = Inr ordered"
    using parse_batch_results_total [OF assms(4)] by blast
  have ids: "id_value (fst (ordered ! i)) = id_value (records ! i)" if "i < length records" for i
    using parse_batch_results_nth [OF p that] by auto
  have same: "fst (ordered ! i) = records ! i"
    if d: "distinct (map id_value records)" and v: "\<forall>key r. id_map key = Some r \<longrightarrow> r \<in> set records"
      and i: "i < length records" for i
  proof -
    have "fst (ordered ! i) \<in> set records"
      using parse_batch_results_nth [OF p i] matched_outcome_source v i
      by (metis fst_conv nth_mem)
    moreover have "records ! i \<in> set records" using i by simp
    moreover have "inj_on id_value (set records)" using d by (simp add: distinct_map)
    ultimately show ?thesis using ids [OF i] by (auto dest: inj_onD)
  qed
  show "\<exists>ordered. parse_batch_results json_loads py_str TEMPLATES records id_map (Inr lines) tid = Inr ordered \<and>
            length ordered = length records \<and>
            (\<forall>i<length records. id_value (fst (ordered ! i)) = id_value (records ! i)) \<and>
            (distinct (map id_value records) \<and> (\<forall>key r. id_map key = Some r \<longrightarrow> r \<in> set records)
               \<longrightarrow> (\<forall>i<length records. fst (ordered ! i) = records ! i))"
    using p parse_batch_results_length [OF p] ids same by blast
qed
theorem outcomes_per_record_witness:
  "0 < concurrency (rate_limit example_config) \<and>
   map_of example_TEMPLATES (template_id example_config) = Some example_template \<and>
   mset [2, 0, 1] = mset [0..<length example_records] \<and>
   well_formed_line example_loads ''line A'' \<and> well_formed_line example_loads ''line B'' \<and>
   (\<exists>outs. process_records example_loads example_TEMPLATES example_config example_records
              [example_op_A, example_op_B, example_op_A] [2, 0, 1] = Some (Inr outs) \<and>
           length outs = length example_records \<and>
           mset (map fst outs) = mset example_records) \<and>
   (\<exists>ordered. parse_batch_results example_loads example_str example_TEMPLATES example_records
                 example_id_map (Inr [''line A'', ''line B'']) ''demo'' = Inr ordered \<and>
              length ordered = length example_records)"
proof -
  have h1: "0 < concurrency (rate_limit example_config)"
    by (simp add: example_config_def)
  have h2: "map_of example_TEMPLATES (template_id example_config) = Some example_template"
    by (simp add: example_config_def example_TEMPLATES_def)
  have h3: "mset [2, 0, 1] = mset [0..<length example_records]"
    by (simp add: example_records_def upt_conv_Cons)
  have h4: "\<forall>line\<in>set [''line A'', ''line B'']. well_formed_line example_loads line"
    by (rule example_lines_well_formed)
  have h4': "well_formed_line example_loads ''line A''" "well_formed_line example_loads ''line B''"
    using h4 by simp_all
  note t = outcomes_per_record [of example_config example_TEMPLATES example_template "[2, 0, 1]"
      example_records "[''line A'', ''line B'']" example_loads "[example_op_A, example_op_B, example_op_A]"
      example_str example_id_map "''demo''", OF h1 h2 h3 h4]
  from t [THEN conjunct1] obtain outs where
    o: "process_records example_loads example_TEMPLATES example_config example_records
              [example_op_A, example_op_B, example_op_A] [2, 0, 1] = Some (Inr outs) \<and>
           length outs = length example_records \<and>
           mset (map fst outs) = mset example_records"
    by blast
  from t [THEN conjunct2] obtain ordered where
    b: "parse_batch_results example_loads example_str example_TEMPLATES example_records
                 example_id_map (Inr [''line A'', ''line B'']) ''demo'' = Inr ordered \<and>
              length ordered = length example_records"
    by blast
  show ?thesis
    by (intro conjI exI [of _ outs] exI [of _ ordered])
       (rule h1, rule h2, rule h3, rule h4', rule h4', rule o [THEN conjunct1],
        rule o [THEN conjunct2, THEN conjunct1], rule o [THEN conjunct2, THEN conjunct2],
        rule b [THEN conjunct1], rule b [THEN conjunct2])
qed

text \<open>
  C1 as stated fails on the sync path: when the task of the second record completes first,
  the first outcome \<open>process_records\<close> returns belongs to the second record.
\<close>

theorem process_records_completion_order:
  "process_records example_loads example_TEMPLATES example_config
     [mk_record ''A'' ''x'', mk_record ''B'' ''y''] [example_op_A, example_op_B] [1, 0] =
     Some (Inr [(mk_record ''B'' ''y'', Some (example_result ''B'' ''vb''), None),
                (mk_record ''A'' ''x'', Some (example_result ''A'' ''va''), None)]) \<and>
   fst ([(mk_record ''B'' ''y'', Some (example_result ''B'' ''vb''), None),
         (mk_record ''A'' ''x'', Some (example_result ''A'' ''va''), None)] ! 0) \<noteq>
     [mk_record ''A'' ''x'', mk_record ''B'' ''y''] ! 0"
proof
  show "process_records example_loads example_TEMPLATES example_config
     [mk_record ''A'' ''x'', mk_record ''B'' ''y''] [example_op_A, example_op_B] [1, 0] =
     Some (Inr [(mk_record ''B'' ''y'', Some (example_result ''B'' ''vb''), None),
                (mk_record ''A'' ''x'', Some (example_result ''A'' ''va''), None)])"
    by (rule example_sync_run)
  show "fst ([(mk_record ''B'' ''y'', Some (example_result ''B'' ''vb''), None),
         (mk_record ''A'' ''x'', Some (example_result ''A'' ''va''), None)] ! 0) \<noteq>
     [mk_record ''A'' ''x'', mk_record ''B'' ''y''] ! 0"
    by (simp add: mk_record_def)
qed

subsection \<open>Records that share a natural id\<close>

text \<open>
  C5 on three submitted records of which the first and the third share the natural id
  \<open>A\<close> (submission keys \<open>A\<close>, \<open>B\<close>, \<open>A__2\<close>) and a result file with the two lines
  for the keys \<open>A\<close> and \<open>B\<close>: no line was returned for the third record, and its outcome
  is the first record's outcome, record and extraction included, not the Missing outcome.
\<close>

theorem parse_batch_results_shared_natural_id:
  "parse_batch_results example_loads example_str example_TEMPLATES example_records example_id_map
     (Inr [''line A'', ''line B'']) ''demo'' =
     Inr [(mk_record ''A'' ''x'', Some (example_result ''A'' ''va''), None),
          (mk_record ''B'' ''y'', Some (example_result ''B'' ''vb''), None),
          (mk_record ''A'' ''x'', Some (example_result ''A'' ''va''), None)] \<and>
   example_records ! 2 = mk_record ''A'' ''z'' \<and>
   example_id_map ''A__2'' = Some (mk_record ''A'' ''z'') \<and>
   (mk_record ''A'' ''x'', Some (example_result ''A'' ''va''), None) \<noteq>
     (example_records ! 2, None, Some MISSING_TEXT)"
proof (intro conjI)
  show "parse_batch_results example_loads example_str example_TEMPLATES example_records example_id_map
     (Inr [''line A'', ''line B'']) ''demo'' =
     Inr [(mk_record ''A'' ''x'', Some (example_result ''A'' ''va''), None),
          (mk_record ''B'' ''y'', Some (example_result ''B'' ''vb''), None),
          (mk_record ''A'' ''x'', Some (example_result ''A'' ''va''), None)]"
    by (rule example_batch_two_lines)
  show "example_records ! 2 = mk_record ''A'' ''z''"
    by (simp add: example_records_def)
  show "example_id_map ''A__2'' = Some (mk_record ''A'' ''z'')"
    by (simp add: parse_example_simps)
  show "(mk_record ''A'' ''x'', Some (example_result ''A'' ''va''), None) \<noteq>
     (example_records ! 2, None, Some MISSING_TEXT)"
    by simp
qed

subsection \<open>Retry policy\<close>









subsection \<open>Rate limiter\<close>

lemma wait_granted_ge: "0 \<le> late \<Longrightarrow> max now (next_slot limiter) \<le> fst (wait limiter now late)"
  by (simp add: wait_def Let_def max_def)

lemma wait_granted_le: "0 \<le> late \<Longrightarrow> fst (wait limiter now late) \<le> max now (next_slot limiter) + late"
  by (simp add: wait_def Let_def max_def)

lemma wait_next_slot:
  "next_slot (snd (wait limiter now late)) = max now (next_slot limiter) + interval limiter"
  by (simp add: wait_def Let_def)

lemma wait_interval: "interval (snd (wait limiter now late)) = interval limiter"
  by (simp add: wait_def Let_def)

lemma grants_Cons:
  "grants limiter clock (step # steps) =
     fst (wait limiter (clock + fst step) (snd step)) #
     grants (snd (wait limiter (clock + fst step) (snd step)))
       (fst (wait limiter (clock + fst step) (snd step))) steps"
  by (cases step) (simp add: Let_def split: prod.splits)

lemma length_grants: "length (grants limiter clock steps) = length steps"
  by (induction steps arbitrary: limiter clock) (simp_all add: grants_Cons del: grants.simps(2))

text \<open>
  No caller is let through before the marker, and a caller is let through no earlier than
  one interval after its predecessor, less the lateness of the predecessor's sleep.
\<close>

lemma grants_spacing:
  assumes "\<forall>step\<in>set steps. 0 \<le> snd step"
  shows "(\<forall>t\<in>set (take 1 (grants limiter clock steps)). next_slot limiter \<le> t) \<and>
   (\<forall>i. Suc i < length (grants limiter clock steps) \<longrightarrow>
      grants limiter clock steps ! i - snd (steps ! i) + interval limiter
        \<le> grants limiter clock steps ! Suc i)"
  using assms
proof (induction steps arbitrary: limiter clock)
  case Nil
  then show ?case by simp
next
  case (Cons step steps)
  let ?g = "fst (wait limiter (clock + fst step) (snd step))"
  let ?l = "snd (wait limiter (clock + fst step) (snd step))"
  have late: "0 \<le> snd step" and rest: "\<forall>step\<in>set steps. 0 \<le> snd step" using Cons.prems by simp_all
  note ih = Cons.IH [OF rest, of ?l ?g]
  have first: "next_slot limiter \<le> ?g"
    using wait_granted_ge [OF late, of "clock + fst step" limiter] by simp
  have step: "grants limiter clock (step # steps) ! i - snd ((step # steps) ! i) + interval limiter
                \<le> grants limiter clock (step # steps) ! Suc i"
    if i: "Suc i < length (grants limiter clock (step # steps))" for i
  proof (cases i)
    case 0
    then have ne: "grants ?l ?g steps \<noteq> []" using i by (simp add: grants_Cons del: grants.simps(2))
    then have "hd (grants ?l ?g steps) \<in> set (take 1 (grants ?l ?g steps))"
      by (cases "grants ?l ?g steps") simp_all
    then have "next_slot ?l \<le> hd (grants ?l ?g steps)" using ih by blast
    then have "max (clock + fst step) (next_slot limiter) + interval limiter \<le> grants ?l ?g steps ! 0"
      using ne by (simp add: wait_next_slot hd_conv_nth)
    moreover have "?g - snd step \<le> max (clock + fst step) (next_slot limiter)"
      using wait_granted_le [OF late, of limiter "clock + fst step"] by simp
    ultimately have "?g - snd step + interval limiter \<le> grants ?l ?g steps ! 0" by simp
    then show ?thesis using 0 by (simp add: grants_Cons del: grants.simps(2))
  next
    case (Suc j)
    then have "Suc j < length (grants ?l ?g steps)" using i by (simp add: grants_Cons del: grants.simps(2))
    then have "grants ?l ?g steps ! j - snd (steps ! j) + interval ?l \<le> grants ?l ?g steps ! Suc j"
      using ih by blast
    then show ?thesis using Suc by (simp add: grants_Cons wait_interval del: grants.simps(2))
  qed
  show ?case using first step by (simp add: grants_Cons del: grants.simps(2))
qed

text \<open>
  C4 as the code has it. With the calls of \<open>wait\<close> serialised by the lock and sleeps that
  return no earlier than asked: whatever time passes between the calls, a caller of a
  limiter made for \<open>rpm \<ge> 1\<close> is let through no earlier than \<open>60 / rpm\<close> seconds after
  its predecessor, less the lateness of the predecessor's sleep. Where that sleep returned
  on time, the two are at least \<open>60 / rpm\<close> seconds apart.
\<close>

theorem rate_limiter_min_gap:
  assumes "1 \<le> rpm_value" and "\<forall>step\<in>set steps. 0 \<le> snd step"
  shows "\<forall>i. Suc i < length (grants (RateLimiter_init rpm_value t0) t0 steps) \<longrightarrow>
           60 / real_of_int rpm_value - snd (steps ! i) \<le>
             grants (RateLimiter_init rpm_value t0) t0 steps ! Suc i -
             grants (RateLimiter_init rpm_value t0) t0 steps ! i"
proof -
  have "interval (RateLimiter_init rpm_value t0) = 60 / real_of_int rpm_value"
    using assms(1) by (simp add: RateLimiter_init_def max_def)
  then show ?thesis
    using grants_spacing [OF assms(2), of "RateLimiter_init rpm_value t0" t0]
    by (simp add: algebra_simps)
qed

theorem rate_limiter_min_gap_witness:
  "(1::int) \<le> 60 \<and>
   grants (RateLimiter_init 60 0) 0 [(0, 0), (0, 1/2), (0, 0), (5, 0)] = [0, 3/2, 2, 7] \<and>
   60 / real_of_int 60 - snd ([(0, 0), (0, 1/2), (0, 0), (5, 0 :: real)] ! 1)
     \<le> [0, 3/2, 2, 7 :: real] ! Suc 1 - [0, 3/2, 2, 7] ! 1 \<and>
   60 / real_of_int 60 - snd ([(0, 0), (0, 1/2), (0, 0), (5, 0 :: real)] ! 2)
     \<le> [0, 3/2, 2, 7 :: real] ! Suc 2 - [0, 3/2, 2, 7] ! 2"
proof -
  have h: "(1::int) \<le> 60" by simp
  have l: "\<forall>step\<in>set [(0, 0), (0, 1/2), (0, 0), (5, 0 :: real)]. 0 \<le> snd step" by simp
  have e: "grants (RateLimiter_init 60 0) 0 [(0, 0), (0, 1/2), (0, 0), (5, 0)] = [0, 3/2, 2, 7]"
    by (simp add: RateLimiter_init_def wait_def Let_def)
  note t1 = rate_limiter_min_gap [OF h l, of 0, THEN spec, of 1]
  note t2 = rate_limiter_min_gap [OF h l, of 0, THEN spec, of 2]
  have a: "60 / real_of_int 60 - snd ([(0, 0), (0, 1/2), (0, 0), (5, 0 :: real)] ! 1)
      \<le> [0, 3/2, 2, 7 :: real] ! Suc 1 - [0, 3/2, 2, 7] ! 1"
    using t1 unfolding e by simp
  have b: "60 / real_of_int 60 - snd ([(0, 0), (0, 1/2), (0, 0), (5, 0 :: real)] ! 2)
      \<le> [0, 3/2, 2, 7 :: real] ! Suc 2 - [0, 3/2, 2, 7] ! 2"
    using t2 unfolding e by simp
  show ?thesis using h e a b by simp
qed

text \<open>
  C4 as stated fails when a sleep returns late. With \<open>rpm = 60\<close> and three callers queued
  at time 0, the second sleeps until the marker 1 and wakes at 1.25; the marker has been
  advanced to 2 from the reading taken before the sleep, so the third is let through at 2,
  which is 0.75 seconds after the second and less than \<open>60 / rpm = 1\<close>.
\<close>

theorem rate_limiter_late_sleep:
  "grants (RateLimiter_init 60 0) 0 [(0, 0), (0, 1/4), (0, 0)] = [0, 5/4, 2] \<and>
   grants (RateLimiter_init 60 0) 0 [(0, 0), (0, 1/4), (0, 0)] ! 2 -
   grants (RateLimiter_init 60 0) 0 [(0, 0), (0, 1/4), (0, 0)] ! 1 < 60 / real_of_int 60"
  by (simp add: RateLimiter_init_def wait_def Let_def)

subsection \<open>Quota delay\<close>

lemma re_search_skip:
  assumes "\<forall>i<length pre. rx_match items (drop i (pre @ s)) [] = None"
  shows "re_search items (pre @ s) = re_search items s"
  using assms
proof (induction pre)
  case Nil
  then show ?case by simp
next
  case (Cons c pre)
  have "rx_match items (drop 0 ((c # pre) @ s)) [] = None" using Cons.prems by blast
  then have a: "rx_match items (c # pre @ s) [] = None" by simp
  have "\<forall>i<length pre. rx_match items (drop i (pre @ s)) [] = None"
  proof (intro allI impI)
    fix i assume "i < length pre"
    then have "rx_match items (drop (Suc i) ((c # pre) @ s)) [] = None" using Cons.prems by auto
    then show "rx_match items (drop i (pre @ s)) [] = None" by simp
  qed
  then show ?case using Cons.IH a by simp
qed

lemmas pattern_simps =
  PATTERN_RETRY_IN_def PATTERN_RETRY_DELAY_INT_def PATTERN_RETRY_DELAY_S_def lit_ci_def
  case_variants_def is_digit_or_dot_def is_digit_def digit_zero_def DIGIT_ZEROS_def is_space_def
  is_quote_def is_colon_def

lemmas delay_simps =
  is_429_def py_lower_def to_lower_def retry_delay_def extract_429_retry_delay_def pattern_simps
  py_float_def digits_value_def digit_value_def utf8_simps

lemma match_retry_in_5:
  "rx_match PATTERN_RETRY_IN (codepoints ''retry in 5.0s'' @ post) [] = Some (codepoints ''5.0'')"
  by (simp add: pattern_simps utf8_simps)

lemma search_retry_in_5:
  "re_search PATTERN_RETRY_IN (codepoints ''retry in 5.0s'' @ post) = Some (codepoints ''5.0'')"
proof -
  have "codepoints ''retry in 5.0s'' @ post = 114 # (codepoints ''etry in 5.0s'' @ post)"
    by (simp add: utf8_simps)
  then show ?thesis using match_retry_in_5 [of post] by simp
qed

lemma py_float_5: "py_float (codepoints ''5.0'') = Some 5"
  by (simp add: py_float_def is_digit_def digit_zero_def DIGIT_ZEROS_def digits_value_def
      digit_value_def utf8_simps)

text \<open>
  C3 as the code has it. For a failed attempt whose error text the code classifies as a
  quota failure (it contains \<open>429\<close> or \<open>RESOURCE_EXHAUSTED\<close> as written, or \<open>quota\<close> in
  any letter case): the delay is \<open>min (suggested + 2) 120\<close> when
  \<open>_extract_429_retry_delay\<close> returns a positive suggested delay, and
  \<open>backoff ^ attempt * 10\<close> when it returns none; a text in which the first match of the
  first pattern is \<open>retry in 5.0s\<close> gives the delay 7.
\<close>

theorem quota_retry_delay:
  assumes "is_429 error_str"
  shows "(\<forall>d. extract_429_retry_delay error_str = Some d \<and> 0 < d \<longrightarrow>
            retry_delay backoff attempt error_str = min (d + 2) 120) \<and>
         (extract_429_retry_delay error_str = None \<longrightarrow>
            retry_delay backoff attempt error_str = backoff ^ attempt * 10) \<and>
         (\<forall>pre post. codepoints error_str = pre @ codepoints ''retry in 5.0s'' @ post \<and>
              (\<forall>i<length pre. rx_match PATTERN_RETRY_IN (drop i (codepoints error_str)) [] = None) \<longrightarrow>
            retry_delay backoff attempt error_str = 7)"
proof -
  have five: "extract_429_retry_delay error_str = Some 5"
    if e: "codepoints error_str = pre @ codepoints ''retry in 5.0s'' @ post"
      and n: "\<forall>i<length pre. rx_match PATTERN_RETRY_IN (drop i (codepoints error_str)) [] = None"
    for pre post
  proof -
    have "re_search PATTERN_RETRY_IN (codepoints error_str) =
        re_search PATTERN_RETRY_IN (codepoints ''retry in 5.0s'' @ post)"
      unfolding e
      using re_search_skip [of pre PATTERN_RETRY_IN "codepoints ''retry in 5.0s'' @ post"] n e by simp
    then have "re_search PATTERN_RETRY_IN (codepoints error_str) = Some (codepoints ''5.0'')"
      using search_retry_in_5 [of post] by simp
    then show ?thesis by (simp add: extract_429_retry_delay_def py_float_5)
  qed
  have a: "retry_delay backoff attempt error_str = min (d + 2) 120"
    if "extract_429_retry_delay error_str = Some d" and "0 < d" for d
    using that assms by (simp add: retry_delay_def)
  have b: "retry_delay backoff attempt error_str = backoff ^ attempt * 10"
    if "extract_429_retry_delay error_str = None"
    using that assms by (simp add: retry_delay_def)
  have c: "retry_delay backoff attempt error_str = 7"
    if "codepoints error_str = pre @ codepoints ''retry in 5.0s'' @ post"
      and "\<forall>i<length pre. rx_match PATTERN_RETRY_IN (drop i (codepoints error_str)) [] = None"
    for pre post
    using a [OF five [OF that]] by simp
  show ?thesis using a b c by blast
qed

lemma example_quota_message: "is_429 ''retry in 5.0s (quota exceeded)''"
  by (simp add: is_429_def py_lower_def to_lower_def)

theorem quota_retry_delay_witness:
  "is_429 ''retry in 5.0s (quota exceeded)'' \<and>
   retry_delay 2 1 ''retry in 5.0s (quota exceeded)'' = 7"
proof -
  note t = quota_retry_delay [OF example_quota_message, of 2 1, THEN conjunct2, THEN conjunct2,
      THEN spec, THEN spec, of "[]" "codepoints '' (quota exceeded)''"]
  have p: "codepoints ''retry in 5.0s (quota exceeded)'' =
        [] @ codepoints ''retry in 5.0s'' @ codepoints '' (quota exceeded)'' \<and>
      (\<forall>i<length []. rx_match PATTERN_RETRY_IN (drop i (codepoints ''retry in 5.0s (quota exceeded)'')) [] = None)"
    by (simp add: utf8_simps)
  show ?thesis using example_quota_message t [THEN mp, OF p] by simp
qed

text \<open>
  C3 as stated fails on the classification, which the code does not make case-insensitive
  for every marker: \<open>RESOURCE_EXHAUSTED\<close> is looked for as written. A text that carries it
  in lower case, with an embedded delay of 5 seconds, is no quota failure for the code; the
  delay is the generic \<open>backoff ^ attempt\<close> and not \<open>min (5 + 2) 120\<close>.
\<close>

theorem quota_marker_case_sensitive:
  "\<not> is_429 ''resource_exhausted: retry in 5.0s'' \<and>
   extract_429_retry_delay ''resource_exhausted: retry in 5.0s'' = Some 5 \<and>
   retry_delay 2 1 ''resource_exhausted: retry in 5.0s'' = 2 \<and>
   retry_delay 2 1 ''resource_exhausted: retry in 5.0s'' \<noteq> min (5 + 2) 120 \<and>
   is_429 ''RESOURCE_EXHAUSTED: retry in 5.0s'' \<and>
   retry_delay 2 1 ''RESOURCE_EXHAUSTED: retry in 5.0s'' = 7"
  by (simp add: delay_simps)

text \<open>
  A suggested delay of zero is falsy in \<open>if suggested_delay:\<close>, so the branch commented
  as "no suggested delay found" is taken although one was found.
\<close>

lemma suggested_delay_zero:
  "extract_429_retry_delay ''429 retry in 0s'' = Some 0 \<and> retry_delay 2 0 ''429 retry in 0s'' = 10"
  by (simp add: delay_simps)

text \<open>
  The patterns are matched on characters: digits and whitespace outside ASCII take part.
\<close>

lemma example_quota_delays:
  "retry_delay 2 1 ''Error code: 429 - Please retry in 38.5s.'' = 40.5"
  "retry_delay 2 1 ''RESOURCE_EXHAUSTED retryDelay: 300s'' = 120"
  "retry_delay 2 1 ''Quota exceeded'' = 20"
  "retry_delay 2 3 ''connection reset'' = 8"
  "retry_delay 2 1 (''429 retry in 5'' @ [CHR 0xC2, CHR 0xA0] @ ''s'') = 7"
  "retry_delay 2 1 (''429 retry in '' @ [CHR 0xEF, CHR 0xBC, CHR 0x95] @ ''s'') = 7"
  by (simp_all add: delay_simps)

subsection \<open>Submission keys\<close>

lemma line_custom_id_payload:
  "line_custom_id (build_batch_payload r config p (Some u)) = (if u = [] then id_value r else u)"
  by (simp add: build_batch_payload_def line_custom_id_def)

lemma key_for_nonempty: "b \<noteq> [] \<Longrightarrow> key_for b c \<noteq> []"
  by (simp add: key_for_def)

lemma base_id_nonempty: "base_id r \<noteq> []"
  by (simp add: base_id_def)

lemma write_loop_keys:
  assumes "seen_ok seen done"
  shows "map line_custom_id (fst (write_loop config p records seen id_map lines)) =
         map line_custom_id lines @
         map (\<lambda>i. key_for (base_id (records ! i))
                    (length (filter (\<lambda>r. base_id r = base_id (records ! i)) (done @ take i records))))
             [0..<length records]"
  using assms
proof (induction records arbitrary: seen id_map lines "done")
  case Nil
  then show ?case by simp
next
  case (Cons r records)
  let ?b = "base_id r"
  let ?c = "length (filter (\<lambda>x. base_id x = ?b) done)"
  have c: "(case seen ?b of None \<Rightarrow> 0 | Some c \<Rightarrow> c) = ?c"
    using Cons.prems by (simp add: seen_ok_def)
  have ok: "seen_ok (seen(?b \<mapsto> ?c + 1)) (done @ [r])"
    using Cons.prems by (auto simp: seen_ok_def)
  have k: "line_custom_id (build_batch_payload r config p (Some (key_for ?b ?c))) = key_for ?b ?c"
    by (simp add: line_custom_id_payload key_for_nonempty base_id_nonempty)
  have step: "write_loop config p (r # records) seen id_map lines =
      write_loop config p records (seen(?b \<mapsto> ?c + 1)) (id_map(key_for ?b ?c \<mapsto> r))
        (lines @ [build_batch_payload r config p (Some (key_for ?b ?c))])"
    using c by (simp add: Let_def base_id_def key_for_def)
  have shift: "map (\<lambda>i. key_for (base_id ((r # records) ! i))
                    (length (filter (\<lambda>x. base_id x = base_id ((r # records) ! i)) (done @ take i (r # records)))))
             [0..<length (r # records)] =
        key_for ?b ?c #
        map (\<lambda>i. key_for (base_id (records ! i))
                    (length (filter (\<lambda>x. base_id x = base_id (records ! i)) ((done @ [r]) @ take i records))))
             [0..<length records]"
  proof -
    have "[0..<length (r # records)] = 0 # map Suc [0..<length records]"
      by (simp add: upt_conv_Cons map_Suc_upt del: upt_Suc)
    then show ?thesis by (simp add: o_def del: upt_Suc)
  qed
  let ?rest = "map (\<lambda>i. key_for (base_id (records ! i))
                    (length (filter (\<lambda>x. base_id x = base_id (records ! i)) ((done @ [r]) @ take i records))))
             [0..<length records]"
  have "map line_custom_id (fst (write_loop config p (r # records) seen id_map lines)) =
        map line_custom_id (fst (write_loop config p records (seen(?b \<mapsto> ?c + 1))
          (id_map(key_for ?b ?c \<mapsto> r))
          (lines @ [build_batch_payload r config p (Some (key_for ?b ?c))])))"
    by (simp only: step)
  also have "\<dots> = map line_custom_id (lines @ [build_batch_payload r config p (Some (key_for ?b ?c))]) @ ?rest"
    by (rule Cons.IH [OF ok])
  also have "\<dots> = map line_custom_id lines @ (key_for ?b ?c # ?rest)"
    using k by simp
  finally show ?case by (simp only: shift)
qed

text \<open>The key of the \<open>i\<close>-th record: its base id, suffixed from the second occurrence on.\<close>

lemma submission_keys_nth:
  assumes "i < length records"
  shows "submission_keys config p records ! i =
           key_for (base_id (records ! i))
             (length (filter (\<lambda>r. base_id r = base_id (records ! i)) (take i records)))"
proof -
  have "seen_ok Map.empty []" by (simp add: seen_ok_def)
  from write_loop_keys [OF this, of config p records Map.empty "[]"]
  show ?thesis using assms by (simp add: submission_keys_def write_request_jsonl_def)
qed

lemma example_submission_keys:
  "submission_keys example_config ''p''
     [mk_record ''A'' ''x'', mk_record ''A'' ''y'', mk_record ''B'' ''z''] = [''A'', ''A__2'', ''B'']"
  by (simp add: submission_keys_def write_request_jsonl_def mk_record_def build_batch_payload_def
      line_custom_id_def dec.simps digit_char_def Let_def)

text \<open>
  C6 on the natural ids \<open>A\<close>, \<open>A\<close>, \<open>A__2\<close>: the second record, a duplicate of \<open>A\<close>,
  gets the key \<open>A__2\<close>, and so does the third, whose natural id is \<open>A__2\<close> and is seen
  for the first time. The keys are not unique, and \<open>id_map\<close> keeps the third record under
  \<open>A__2\<close>: the second record cannot be recovered from its key.
\<close>

theorem write_request_jsonl_key_collision:
  "submission_keys example_config ''p''
     [mk_record ''A'' ''x'', mk_record ''A'' ''y'', mk_record ''A__2'' ''z''] =
     [''A'', ''A__2'', ''A__2''] \<and>
   \<not> distinct (submission_keys example_config ''p''
     [mk_record ''A'' ''x'', mk_record ''A'' ''y'', mk_record ''A__2'' ''z'']) \<and>
   snd (write_request_jsonl example_config ''p''
     [mk_record ''A'' ''x'', mk_record ''A'' ''y'', mk_record ''A__2'' ''z'']) ''A__2'' =
     Some (mk_record ''A__2'' ''z'')"
  by (simp add: submission_keys_def write_request_jsonl_def mk_record_def build_batch_payload_def
      line_custom_id_def dec.simps digit_char_def Let_def)

subsection \<open>Batch lifecycle\<close>



















lemmas batch_example_simps =
  run_batch_def fetch_results_def obtain_output_file_id_def example_env_def
  example_env_no_output_def example_env_late_output_def example_env_custom_provider_def
  example_env_refresh_raises_def completed_no_id_def example_build_prompt_def



text \<open>
  The job goes from queued to in progress to completed, the output file id is missing at
  first and appears on the second refresh: the run downloads, parses and returns.
\<close>

lemma example_run_late_output_id:
  "run_batch example_loads example_str example_TEMPLATES example_build_prompt example_config 15
       example_env_late_output =
     Some (Returned (JObj [(''id'', JStr ''batch-1'')])
             (JObj [(''status'', JStr ''completed''), (''output_file_id'', JStr ''out-1'')])
             (Some [(mk_record ''A'' ''x'', Some (example_result ''A'' ''va''), None),
                    (mk_record ''B'' ''y'', Some (example_result ''B'' ''vb''), None),
                    (mk_record ''A'' ''x'', Some (example_result ''A'' ''va''), None)]),
       [Upload_file, Create_batch, Retrieve_batch, Time_sleep 15, Retrieve_batch, Time_sleep 15,
        Retrieve_batch, Time_sleep 2, Retrieve_batch, Time_sleep 4, Retrieve_batch, Download_file])"
  by (simp add: batch_example_simps parse_example_simps upt_conv_Cons)

end
